theory Spec2Isabelle
  imports Complex_Main "HOL-Library.Log_Nat" "HOL-Library.AList"
begin

section \<open>JavaScript values\<close>

text \<open>
  The services of \<^verbatim>\<open>src/lib\<close> receive weakly typed data: the normalizer takes
  \<^verbatim>\<open>rawResponse: any\<close>, which every caller obtains from \<^verbatim>\<open>response.json()\<close> or
  \<^verbatim>\<open>JSON.parse\<close>. Such a value is a tree of the six JSON kinds; \<^verbatim>\<open>undefined\<close> is
  added because reading an absent property yields it. An object is the list of its
  properties; a property is looked up by its first entry in the list.

  Strings are lists of 8-bit characters (code units below 256). Numbers are IEEE
  binary64 values: a finite number carries its exact rational value; the two zeros are
  identified (both are falsy, and this program never prints or divides by a zero).
\<close>

datatype jsnum = NaN | PosInf | NegInf | Fin rat

datatype jsval =
    JUndefined
  | JNull
  | JBool bool
  | JNum jsnum
  | JStr string
  | JArr "jsval list"
  | JObj "(string \<times> jsval) list"

text \<open>
  A thrown value: an instance of \<^verbatim>\<open>Error\<close> with its \<^verbatim>\<open>message\<close>, or any other value.
\<close>

datatype js_exn = Error string | Thrown jsval

definition and_then :: "js_exn + 'a \<Rightarrow> ('a \<Rightarrow> js_exn + 'b) \<Rightarrow> js_exn + 'b" where
  "and_then m f = (case m of Inl e \<Rightarrow> Inl e | Inr x \<Rightarrow> f x)"

fun num_truthy :: "jsnum \<Rightarrow> bool" where
  "num_truthy NaN = False"
| "num_truthy (Fin x) = (x \<noteq> 0)"
| "num_truthy PosInf = True"
| "num_truthy NegInf = True"

fun truthy :: "jsval \<Rightarrow> bool" where
  "truthy JUndefined = False"
| "truthy JNull = False"
| "truthy (JBool b) = b"
| "truthy (JNum n) = num_truthy n"
| "truthy (JStr s) = (s \<noteq> [])"
| "truthy (JArr xs) = True"
| "truthy (JObj kvs) = True"

text \<open>The operator \<^verbatim>\<open>a || b\<close> on operands whose evaluation cannot throw.\<close>

definition js_or :: "jsval \<Rightarrow> jsval \<Rightarrow> jsval" where
  "js_or a b = (if truthy a then a else b)"

fun typeof :: "jsval \<Rightarrow> string" where
  "typeof JUndefined = ''undefined''"
| "typeof JNull = ''object''"
| "typeof (JBool b) = ''boolean''"
| "typeof (JNum n) = ''number''"
| "typeof (JStr s) = ''string''"
| "typeof (JArr xs) = ''object''"
| "typeof (JObj kvs) = ''object''"

fun nullish :: "jsval \<Rightarrow> bool" where
  "nullish JUndefined = True"
| "nullish JNull = True"
| "nullish v = False"

text \<open>
  \<^verbatim>\<open>v.k\<close> for a value \<open>v\<close> that is neither \<^verbatim>\<open>null\<close> nor \<^verbatim>\<open>undefined\<close> (on those the
  access throws, see \<open>js_get_checked\<close>). The property names this program reads are
  fixed identifiers, none of them an array index or a member of a built-in prototype
  other than \<^verbatim>\<open>length\<close>, so an object answers with its own property and every other
  value with \<^verbatim>\<open>undefined\<close>.
\<close>

fun js_get :: "jsval \<Rightarrow> string \<Rightarrow> jsval" where
  "js_get (JObj kvs) k = (case map_of kvs k of Some v \<Rightarrow> v | None \<Rightarrow> JUndefined)"
| "js_get (JArr xs) k =
     (if k = ''length'' then JNum (Fin (of_nat (length xs))) else JUndefined)"
| "js_get (JStr s) k =
     (if k = ''length'' then JNum (Fin (of_nat (length s))) else JUndefined)"
| "js_get v k = JUndefined"

text \<open>The message of the \<^verbatim>\<open>TypeError\<close> of a property read on null or undefined (V8 wording).\<close>

definition cannot_read :: "jsval \<Rightarrow> string \<Rightarrow> string" where
  "cannot_read v k =
     ''Cannot read properties of '' @ (if v = JNull then ''null'' else ''undefined'') @
     '' (reading '' @ [CHR 0x27] @ k @ [CHR 0x27] @ '')''"

definition js_get_checked :: "jsval \<Rightarrow> string \<Rightarrow> js_exn + jsval" where
  "js_get_checked v k = (if nullish v then Inl (Error (cannot_read v k)) else Inr (js_get v k))"

text \<open>Optional chaining \<^verbatim>\<open>v?.k\<close>.\<close>

definition js_get_opt :: "jsval \<Rightarrow> string \<Rightarrow> jsval" where
  "js_get_opt v k = (if nullish v then JUndefined else js_get v k)"

section \<open>Strings\<close>

text \<open>
  White space and line terminators of ECMAScript among the code units below 256:
  TAB, LF, VT, FF, CR, SPACE and NBSP.
\<close>

definition is_space :: "char \<Rightarrow> bool" where
  "is_space c = (c \<in> set [CHR 0x09, CHR 0x0A, CHR 0x0B, CHR 0x0C, CHR 0x0D, CHR 0x20, CHR 0xA0])"

definition trim :: "string \<Rightarrow> string" where
  "trim s = rev (dropWhile is_space (rev (dropWhile is_space s)))"

definition is_digit :: "char \<Rightarrow> bool" where
  "is_digit c = (48 \<le> (of_char c :: nat) \<and> (of_char c :: nat) \<le> 57)"

definition digit_char :: "nat \<Rightarrow> char" where
  "digit_char d = ''0123456789'' ! d"

text \<open>\<^verbatim>\<open>n.toString()\<close> of a non-negative integer below \<open>10\<^sup>2\<^sup>1\<close>: its decimal digits.\<close>

fun nat_to_string :: "nat \<Rightarrow> string" where
  "nat_to_string n =
     (if n < 10 then [digit_char n] else nat_to_string (n div 10) @ [digit_char (n mod 10)])"

declare nat_to_string.simps [simp del]

definition padStart :: "nat \<Rightarrow> char \<Rightarrow> string \<Rightarrow> string" where
  "padStart n c s = replicate (n - length s) c @ s"

section \<open>Numeric conversion\<close>

text \<open>Rounding of a rational to the nearest binary64 value, ties to even.\<close>

definition pow2 :: "int \<Rightarrow> rat" where
  "pow2 e = (if 0 \<le> e then 2 ^ nat e else 1 / 2 ^ nat (- e))"

definition floor_log2 :: "rat \<Rightarrow> int" where
  "floor_log2 x =
     (let (p, q) = quotient_of x;
          d = bitlen p - bitlen q
      in if pow2 d \<le> x then d else d - 1)"

definition round_half_even :: "rat \<Rightarrow> int" where
  "round_half_even x =
     (let n = \<lfloor>x\<rfloor>; r = x - of_int n
      in if r < 1 / 2 then n
         else if 1 / 2 < r then n + 1
         else if even n then n else n + 1)"

definition round_binary64 :: "rat \<Rightarrow> jsnum" where
  "round_binary64 x =
     (if x = 0 then Fin 0
      else let a = \<bar>x\<bar>;
               e = max (floor_log2 a) (- 1022);
               n = round_half_even (a / pow2 (e - 52))
           in if 1024 \<le> e \<or> (e = 1023 \<and> n = 2 ^ 53)
              then (if 0 < x then PosInf else NegInf)
              else Fin ((if 0 < x then 1 else - 1) * of_int n * pow2 (e - 52)))"

text \<open>The rationals that are binary64 values: rounding leaves them as they are.\<close>

definition is_binary64 :: "rat \<Rightarrow> bool" where
  "is_binary64 x = (round_binary64 x = Fin x)"

text \<open>\<^verbatim>\<open>Math.floor\<close>\<close>

definition Math_floor :: "jsnum \<Rightarrow> jsnum" where
  "Math_floor n = (case n of Fin m \<Rightarrow> Fin (of_int \<lfloor>m\<rfloor>) | _ \<Rightarrow> n)"

text \<open>
  \<^verbatim>\<open>Number(s)\<close> for a string: the grammar \<^verbatim>\<open>StringNumericLiteral\<close>. White space is
  stripped; the empty string is 0; a decimal literal may carry a sign, a fraction and
  an exponent; \<^verbatim>\<open>Infinity\<close> is a literal; \<^verbatim>\<open>0x\<close>, \<^verbatim>\<open>0o\<close> and \<^verbatim>\<open>0b\<close> introduce
  unsigned integers; anything else is \<^verbatim>\<open>NaN\<close>.
\<close>

definition digit_value :: "char \<Rightarrow> nat option" where
  "digit_value c =
     (let n = (of_char c :: nat)
      in if 48 \<le> n \<and> n \<le> 57 then Some (n - 48)
         else if 97 \<le> n \<and> n \<le> 102 then Some (n - 87)
         else if 65 \<le> n \<and> n \<le> 70 then Some (n - 55)
         else None)"

definition digits_in_base :: "nat \<Rightarrow> string \<Rightarrow> nat option" where
  "digits_in_base b s =
     (if s \<noteq> [] \<and> (\<forall>c \<in> set s. case digit_value c of Some d \<Rightarrow> d < b | None \<Rightarrow> False)
      then Some (foldl (\<lambda>acc c. acc * b + the (digit_value c)) 0 s)
      else None)"

definition non_decimal_literal :: "string \<Rightarrow> nat option" where
  "non_decimal_literal s =
     (case s of
        c0 # c1 # ds \<Rightarrow>
          if c0 \<noteq> CHR ''0'' then None
          else if c1 = CHR ''x'' \<or> c1 = CHR ''X'' then digits_in_base 16 ds
          else if c1 = CHR ''o'' \<or> c1 = CHR ''O'' then digits_in_base 8 ds
          else if c1 = CHR ''b'' \<or> c1 = CHR ''B'' then digits_in_base 2 ds
          else None
      | _ \<Rightarrow> None)"

definition split_sign :: "string \<Rightarrow> bool \<times> string" where
  "split_sign s =
     (case s of
        c # r \<Rightarrow> if c = CHR ''-'' then (True, r) else if c = CHR ''+'' then (False, r) else (False, s)
      | [] \<Rightarrow> (False, s))"

definition exponent_part :: "string \<Rightarrow> int option" where
  "exponent_part s =
     (case s of
        [] \<Rightarrow> Some 0
      | c # r \<Rightarrow>
          if c = CHR ''e'' \<or> c = CHR ''E'' then
            (let (neg, ds) = split_sign r
             in case digits_in_base 10 ds of
                  None \<Rightarrow> None
                | Some n \<Rightarrow> Some (if neg then - int n else int n))
          else None)"

definition pow10 :: "int \<Rightarrow> rat" where
  "pow10 e = (if 0 \<le> e then 10 ^ nat e else 1 / 10 ^ nat (- e))"

definition unsigned_decimal :: "string \<Rightarrow> rat option" where
  "unsigned_decimal s =
     (let ip = takeWhile is_digit s;
          r1 = dropWhile is_digit s;
          has_point = (r1 \<noteq> [] \<and> hd r1 = CHR ''.'');
          fp = (if has_point then takeWhile is_digit (tl r1) else []);
          r2 = (if has_point then dropWhile is_digit (tl r1) else r1)
      in if ip = [] \<and> fp = [] then None
         else case exponent_part r2 of
                None \<Rightarrow> None
              | Some e \<Rightarrow>
                  Some ((of_nat (the (digits_in_base 10 (CHR ''0'' # ip))) +
                         of_nat (the (digits_in_base 10 (CHR ''0'' # fp))) * pow10 (- int (length fp)))
                        * pow10 e))"

definition str_to_number :: "string \<Rightarrow> jsnum" where
  "str_to_number s =
     (let t = trim s
      in if t = [] then Fin 0
         else case non_decimal_literal t of
                Some n \<Rightarrow> round_binary64 (of_nat n)
              | None \<Rightarrow>
                  (let (neg, u) = split_sign t
                   in if u = ''Infinity'' then (if neg then NegInf else PosInf)
                      else case unsigned_decimal u of
                             None \<Rightarrow> NaN
                           | Some x \<Rightarrow> round_binary64 (if neg then - x else x)))"

text \<open>
  \<^verbatim>\<open>Number(v)\<close>. An object or array is first converted to a primitive. No JSON value is
  callable, so an object with an own property \<^verbatim>\<open>toString\<close> has no usable conversion
  method and the conversion throws; any other object prints as \<^verbatim>\<open>[object Object]\<close>,
  which is not numeric. An array prints as its elements joined by commas (null and
  undefined print as the empty string, a number prints as a literal that reads back as
  the same number), so an empty array converts to 0, a one-element array converts as
  its element's text does, and a longer array is not numeric.
\<close>

fun to_primitive_throws :: "jsval \<Rightarrow> bool" where
  "to_primitive_throws (JObj kvs) = (''toString'' \<in> fst ` set kvs)"
| "to_primitive_throws (JArr xs) = (\<exists>x \<in> set xs. to_primitive_throws x)"
| "to_primitive_throws v = False"

definition cannot_convert :: js_exn where
  "cannot_convert = Error ''Cannot convert object to primitive value''"

fun number_of_text :: "jsval \<Rightarrow> jsnum" where
  "number_of_text (JArr []) = Fin 0"
| "number_of_text (JArr [x]) = number_of_text x"
| "number_of_text (JArr (x # y # zs)) = NaN"
| "number_of_text JUndefined = Fin 0"
| "number_of_text JNull = Fin 0"
| "number_of_text (JNum n) = n"
| "number_of_text (JStr s) = str_to_number s"
| "number_of_text (JBool b) = NaN"
| "number_of_text (JObj kvs) = NaN"

fun to_number :: "jsval \<Rightarrow> js_exn + jsnum" where
  "to_number JUndefined = Inr NaN"
| "to_number JNull = Inr (Fin 0)"
| "to_number (JBool b) = Inr (Fin (if b then 1 else 0))"
| "to_number (JNum n) = Inr n"
| "to_number (JStr s) = Inr (str_to_number s)"
| "to_number (JArr xs) =
     (if to_primitive_throws (JArr xs) then Inl cannot_convert
      else Inr (number_of_text (JArr xs)))"
| "to_number (JObj kvs) =
     (if to_primitive_throws (JObj kvs) then Inl cannot_convert else Inr NaN)"

text \<open>\<^verbatim>\<open>Number(v) || d\<close> once \<^verbatim>\<open>Number(v)\<close> has been computed.\<close>

definition num_or :: "jsnum \<Rightarrow> jsnum \<Rightarrow> jsnum" where
  "num_or a d = (if num_truthy a then a else d)"

section \<open>The platform\<close>

text \<open>
  An HTTP exchange as the services see it. The body of a request is the value handed
  to \<^verbatim>\<open>JSON.stringify\<close> (\<^verbatim>\<open>undefined\<close> when there is none). A response carries its
  status and the outcome of reading its body with \<^verbatim>\<open>text()\<close>.
\<close>

record request =
  "method" :: string
  url :: string
  body :: jsval

record response =
  status :: nat
  statusText :: string
  body_text :: "js_exn + string"

definition ok :: "response \<Rightarrow> bool" where
  "ok r = (200 \<le> status r \<and> status r \<le> 299)"

text \<open>
  What one call reads from its environment: the configured base URL (\<open>None\<close> when
  the variable is unset), the clock (\<^verbatim>\<open>Date.now()\<close>, milliseconds since the epoch; one
  reading serves the whole call), the draw of \<^verbatim>\<open>Math.random()\<close> (in the program a
  binary64 value \<open>r\<close> with \<open>0 \<le> r < 1\<close>), the network, and the
  built-in functions that are taken as given: \<^verbatim>\<open>Date.prototype.toISOString\<close>,
  \<^verbatim>\<open>JSON.parse\<close>, and the printing of numbers (\<^verbatim>\<open>toString\<close> and \<^verbatim>\<open>toFixed(2)\<close>).
\<close>

record platform =
  API_BASE_URL :: "string option"
  date_now :: nat
  math_random :: rat
  toISOString :: "nat \<Rightarrow> string"
  JSON_parse :: "string \<Rightarrow> js_exn + jsval"
  number_toString :: "jsnum \<Rightarrow> string"
  number_toFixed2 :: "jsnum \<Rightarrow> string"
  fetch :: "request \<Rightarrow> js_exn + response"

text \<open>\<^verbatim>\<open>new Date(ms).toISOString().split("T")[0]\<close>\<close>

definition iso_date :: "platform \<Rightarrow> nat \<Rightarrow> string" where
  "iso_date p ms = takeWhile (\<lambda>c. c \<noteq> CHR ''T'') (toISOString p ms)"

text \<open>\<^verbatim>\<open>await response.json()\<close>\<close>

definition response_json :: "platform \<Rightarrow> response \<Rightarrow> js_exn + jsval" where
  "response_json p r = and_then (body_text r) (JSON_parse p)"

text \<open>\<^verbatim>\<open>!API_BASE_URL\<close>: unset or empty.\<close>

definition base_url_missing :: "platform \<Rightarrow> bool" where
  "base_url_missing p = (case API_BASE_URL p of None \<Rightarrow> True | Some u \<Rightarrow> u = [])"

definition base_url :: "platform \<Rightarrow> string" where
  "base_url p = (case API_BASE_URL p of None \<Rightarrow> [] | Some u \<Rightarrow> u)"

text \<open>\<^verbatim>\<open>s.includes(t)\<close>\<close>

fun str_includes :: "string \<Rightarrow> string \<Rightarrow> bool" where
  "str_includes [] t = (t = [])"
| "str_includes (c # s) t = (take (length t) (c # s) = t \<or> str_includes s t)"

text \<open>
  Conversion to text in a template literal \<^verbatim>\<open>`${v}`\<close>. It throws on the objects whose
  conversion to a primitive throws (see \<open>to_primitive_throws\<close>).
\<close>

fun join_comma :: "string list \<Rightarrow> string" where
  "join_comma [] = []"
| "join_comma [s] = s"
| "join_comma (s # t # ts) = s @ '','' @ join_comma (t # ts)"

fun text_of :: "platform \<Rightarrow> jsval \<Rightarrow> string" where
  "text_of p JUndefined = ''undefined''"
| "text_of p JNull = ''null''"
| "text_of p (JBool b) = (if b then ''true'' else ''false'')"
| "text_of p (JNum n) = number_toString p n"
| "text_of p (JStr s) = s"
| "text_of p (JArr xs) = join_comma (map (\<lambda>x. if nullish x then [] else text_of p x) xs)"
| "text_of p (JObj kvs) = ''[object Object]''"

definition to_text :: "platform \<Rightarrow> jsval \<Rightarrow> js_exn + string" where
  "to_text p v = (if to_primitive_throws v then Inl cannot_convert else Inr (text_of p v))"

section \<open>The canonical invoice (types of \<^verbatim>\<open>AIInvoiceResponse\<close>)\<close>

text \<open>
  The fields the normalizer fills with \<^verbatim>\<open>a || b || default\<close> hold whatever truthy value
  the response carried, so they are JavaScript values; the fields it fills through
  \<^verbatim>\<open>Number(...)\<close> are numbers, and \<^verbatim>\<open>invoice_id\<close> is the result of \<^verbatim>\<open>trim()\<close>.
\<close>

record InvoiceContact =
  company :: jsval
  contact :: jsval
  address :: jsval
  phone :: jsval
  email :: jsval

record InvoiceItemData =
  description :: jsval
  qty :: jsnum
  unit :: jsval
  unit_price :: jsnum
  total :: jsnum

record InvoiceSummary =
  subtotal :: jsnum
  discount :: jsnum
  freight :: jsnum
  tax :: jsnum
  total :: jsnum

record AIInvoiceResponse =
  invoice_id :: string
  invoice_date :: jsval
  due_date :: jsval
  payment_terms :: jsval
  shipping_method :: jsval
  bill_to :: InvoiceContact
  vendor :: InvoiceContact
  items :: "InvoiceItemData list"
  summary :: InvoiceSummary
  "notes" :: jsval
  payment_status :: jsval

section \<open>\<^verbatim>\<open>src/lib/ai-invoice-service.ts\<close>: the normalizer\<close>

text \<open>
  \<^verbatim>\<open>n.toString()\<close> for a number: the decimal digits when \<open>n\<close> is an integer with
  \<open>0 \<le> n < 10\<^sup>2\<^sup>1\<close>, and what the platform prints otherwise.
\<close>

definition integer_toString :: "platform \<Rightarrow> jsnum \<Rightarrow> string" where
  "integer_toString p n =
     (case n of
        Fin m \<Rightarrow> if 0 \<le> m \<and> m < 10 ^ 21 \<and> of_int \<lfloor>m\<rfloor> = m then nat_to_string (nat \<lfloor>m\<rfloor>)
                 else number_toString p n
      | _ \<Rightarrow> number_toString p n)"

text \<open>
  \<^verbatim>\<open>Math.floor(Math.random() * 1000).toString().padStart(3, "0")\<close>: the product is a
  binary64 multiplication, rounded before it is floored.
\<close>

definition generateFallbackInvoiceId :: "platform \<Rightarrow> string \<Rightarrow> string" where
  "generateFallbackInvoiceId p poNumber =
     (let timestamp = date_now p;
          random = padStart 3 (CHR ''0'')
                     (integer_toString p (Math_floor (round_binary64 (math_random p * 1000))))
      in ''INV-'' @ poNumber @ ''-'' @ nat_to_string timestamp @ ''-'' @ random)"

definition possibleWrappers :: "string list" where
  "possibleWrappers = [''data'', ''invoice'', ''result'', ''response'']"

text \<open>The loop over \<open>possibleWrappers\<close>: the first wrapper that holds an object wins.\<close>

fun unwrap :: "jsval \<Rightarrow> string list \<Rightarrow> jsval" where
  "unwrap rawResponse [] = rawResponse"
| "unwrap rawResponse (wrapper # rest) =
     (if truthy (js_get rawResponse wrapper) \<and> typeof (js_get rawResponse wrapper) = ''object''
      then js_get rawResponse wrapper
      else unwrap rawResponse rest)"

text \<open>
  \<^verbatim>\<open>actualData.invoice_id || actualData.invoiceId || actualData.id || actualData.invoice_number\<close>
\<close>

definition invoiceId_candidate :: "jsval \<Rightarrow> jsval" where
  "invoiceId_candidate actualData =
     js_or (js_get actualData ''invoice_id'')
       (js_or (js_get actualData ''invoiceId'')
          (js_or (js_get actualData ''id'') (js_get actualData ''invoice_number'')))"

text \<open>
  \<^verbatim>\<open>!invoiceId || typeof invoiceId !== "string" || invoiceId.trim() === ""\<close>: the
  candidate is usable exactly when it is a string that is not blank.
\<close>

fun usable_id :: "jsval \<Rightarrow> string option" where
  "usable_id (JStr s) = (if s = [] \<or> trim s = [] then None else Some s)"
| "usable_id v = None"

text \<open>The callback of \<^verbatim>\<open>actualData.items.map\<close>; reading a property of a null item throws.\<close>

definition normalize_item :: "jsval \<Rightarrow> nat \<Rightarrow> js_exn + InvoiceItemData" where
  "normalize_item item index =
     and_then (js_get_checked item ''description'') (\<lambda>d.
     and_then (to_number (js_get item ''qty'')) (\<lambda>q.
     and_then (to_number (js_get item ''unit_price'')) (\<lambda>up.
     and_then (if num_truthy up then Inr up
               else and_then (to_number (js_get item ''unitPrice'')) (\<lambda>up'. Inr (num_or up' (Fin 0)))) (\<lambda>price.
     and_then (to_number (js_get item ''total'')) (\<lambda>t.
       Inr \<lparr> description = js_or d (JStr (''Item '' @ nat_to_string (index + 1))),
             qty = num_or q (Fin 1),
             unit = js_or (js_get item ''unit'') (JStr ''Each''),
             unit_price = price,
             InvoiceItemData.total = num_or t (Fin 0) \<rparr>)))))"

fun map_items :: "jsval list \<Rightarrow> nat \<Rightarrow> js_exn + InvoiceItemData list" where
  "map_items [] index = Inr []"
| "map_items (item # rest) index =
     and_then (normalize_item item index) (\<lambda>x.
     and_then (map_items rest (index + 1)) (\<lambda>xs. Inr (x # xs)))"

fun normalize_items :: "jsval \<Rightarrow> js_exn + InvoiceItemData list" where
  "normalize_items (JArr xs) = map_items xs 0"
| "normalize_items v = Inr []"

text \<open>\<^verbatim>\<open>Number(actualData.summary?.field) || 0\<close>\<close>

definition summary_field :: "jsval \<Rightarrow> string \<Rightarrow> js_exn + jsnum" where
  "summary_field actualData field =
     and_then (to_number (js_get_opt (js_get actualData ''summary'') field)) (\<lambda>n. Inr (num_or n (Fin 0)))"

definition normalize_summary :: "jsval \<Rightarrow> js_exn + InvoiceSummary" where
  "normalize_summary actualData =
     and_then (summary_field actualData ''subtotal'') (\<lambda>a.
     and_then (summary_field actualData ''discount'') (\<lambda>b.
     and_then (summary_field actualData ''freight'') (\<lambda>c.
     and_then (summary_field actualData ''tax'') (\<lambda>d.
     and_then (summary_field actualData ''total'') (\<lambda>e.
       Inr \<lparr> subtotal = a, discount = b, freight = c, tax = d, InvoiceSummary.total = e \<rparr>)))))"

definition normalize_bill_to :: "jsval \<Rightarrow> InvoiceContact" where
  "normalize_bill_to actualData =
     (let bt = js_get actualData ''bill_to''; bT = js_get actualData ''billTo''
      in \<lparr> company = js_or (js_get_opt bt ''company'') (js_or (js_get_opt bT ''company'') (JStr ''Unknown Company'')),
           contact = js_or (js_get_opt bt ''contact'') (js_or (js_get_opt bT ''contact'') (JStr ''Unknown Contact'')),
           address = js_or (js_get_opt bt ''address'') (js_or (js_get_opt bT ''address'') (JStr ''Unknown Address'')),
           phone = js_or (js_get_opt bt ''phone'') (js_or (js_get_opt bT ''phone'') (JStr [])),
           email = js_or (js_get_opt bt ''email'') (js_or (js_get_opt bT ''email'') (JStr [])) \<rparr>)"

definition normalize_vendor :: "jsval \<Rightarrow> InvoiceContact" where
  "normalize_vendor actualData =
     (let v = js_get actualData ''vendor''
      in \<lparr> company = js_or (js_get_opt v ''company'') (JStr ''Unknown Vendor''),
           contact = js_or (js_get_opt v ''contact'') (JStr ''Unknown Contact''),
           address = js_or (js_get_opt v ''address'') (JStr ''Unknown Address''),
           phone = js_or (js_get_opt v ''phone'') (JStr []),
           email = js_or (js_get_opt v ''email'') (JStr []) \<rparr>)"

definition thirty_days :: nat where
  "thirty_days = 30 * 24 * 60 * 60 * 1000"

text \<open>
  The body of the normalizer after the identifier is known. The fields are evaluated in
  the order of the object literal, so an exception of the items precedes one of the
  summary. The computation of \<^verbatim>\<open>missingFields\<close> only logs and is left out.
\<close>

definition build_invoice :: "platform \<Rightarrow> jsval \<Rightarrow> string \<Rightarrow> js_exn + AIInvoiceResponse" where
  "build_invoice p actualData invoiceId =
     and_then (normalize_items (js_get actualData ''items'')) (\<lambda>its.
     and_then (normalize_summary actualData) (\<lambda>sm.
       Inr \<lparr> invoice_id = trim invoiceId,
             invoice_date = js_or (js_get actualData ''invoice_date'')
                (js_or (js_get actualData ''invoiceDate'') (JStr (iso_date p (date_now p)))),
             due_date = js_or (js_get actualData ''due_date'')
                (js_or (js_get actualData ''dueDate'') (JStr (iso_date p (date_now p + thirty_days)))),
             payment_terms = js_or (js_get actualData ''payment_terms'')
                (js_or (js_get actualData ''paymentTerms'') (JStr ''Net 30'')),
             shipping_method = js_or (js_get actualData ''shipping_method'')
                (js_or (js_get actualData ''shippingMethod'') (JStr ''Standard'')),
             bill_to = normalize_bill_to actualData,
             vendor = normalize_vendor actualData,
             items = its,
             summary = sm,
             notes = js_or (js_get actualData ''notes'') (JStr []),
             payment_status = js_or (js_get actualData ''payment_status'')
                (js_or (js_get actualData ''paymentStatus'') (JStr ''Pending'')) \<rparr>))"

text \<open>
  \<^verbatim>\<open>validateAndNormalizeInvoiceResponse(rawResponse, poNumber?)\<close>: \<open>Inl\<close> is a thrown
  exception, \<open>Inr None\<close> is the result \<^verbatim>\<open>null\<close>. The hint \<open>poNumber\<close> is \<open>None\<close> when
  the argument is omitted.
\<close>

definition validateAndNormalizeInvoiceResponse ::
  "platform \<Rightarrow> jsval \<Rightarrow> string option \<Rightarrow> js_exn + AIInvoiceResponse option" where
  "validateAndNormalizeInvoiceResponse p rawResponse poNumber =
     (if \<not> truthy rawResponse \<or> typeof rawResponse \<noteq> ''object'' then Inr None
      else
        let actualData = unwrap rawResponse possibleWrappers
        in case usable_id (invoiceId_candidate actualData) of
             Some invoiceId \<Rightarrow> and_then (build_invoice p actualData invoiceId) (\<lambda>normalized. Inr (Some normalized))
           | None \<Rightarrow>
               (case poNumber of
                  Some po \<Rightarrow>
                    if po \<noteq> []
                    then and_then (build_invoice p actualData (generateFallbackInvoiceId p po))
                           (\<lambda>normalized. Inr (Some normalized))
                    else Inr None
                | None \<Rightarrow> Inr None))"

section \<open>\<^verbatim>\<open>src/lib/ai-invoice-service.ts\<close>: the generation orchestrator\<close>

datatype invoice_source = Api | Database | Generated

record InvoiceGenerationResult =
  success :: bool
  invoice :: "AIInvoiceResponse option"
  error :: "string option"
  rawResponse :: "jsval option"
  source :: "invoice_source option"

definition generation_failure :: "string \<Rightarrow> jsval option \<Rightarrow> InvoiceGenerationResult" where
  "generation_failure msg raw =
     \<lparr> success = False, invoice = None, error = Some msg, rawResponse = raw, source = None \<rparr>"

definition generation_success :: "AIInvoiceResponse \<Rightarrow> invoice_source \<Rightarrow> InvoiceGenerationResult" where
  "generation_success invoiceData src =
     \<lparr> success = True, invoice = Some invoiceData, error = None, rawResponse = None, source = Some src \<rparr>"

definition getExistingInvoiceFromDatabase :: "platform \<Rightarrow> string \<Rightarrow> AIInvoiceResponse option" where
  "getExistingInvoiceFromDatabase p poNumber =
     (if base_url_missing p then None
      else case fetch p \<lparr> method = ''GET'', url = base_url p @ ''/invoices/by-po/'' @ poNumber,
                            body = JUndefined \<rparr> of
             Inl e \<Rightarrow> None
           | Inr r \<Rightarrow>
               if status r = 404 then None
               else if \<not> ok r then None
               else (case response_json p r of
                       Inl e \<Rightarrow> None
                     | Inr existingInvoice \<Rightarrow>
                         (case validateAndNormalizeInvoiceResponse p existingInvoice (Some poNumber) of
                            Inl e \<Rightarrow> None
                          | Inr normalizedInvoice \<Rightarrow> normalizedInvoice)))"

definition contact_to_js :: "InvoiceContact \<Rightarrow> jsval" where
  "contact_to_js c =
     JObj [(''company'', company c), (''contact'', contact c), (''address'', address c),
           (''phone'', phone c), (''email'', email c)]"

definition item_to_js :: "InvoiceItemData \<Rightarrow> jsval" where
  "item_to_js i =
     JObj [(''description'', description i), (''qty'', JNum (qty i)), (''unit'', unit i),
           (''unit_price'', JNum (unit_price i)), (''total'', JNum (InvoiceItemData.total i))]"

definition summary_to_js :: "InvoiceSummary \<Rightarrow> jsval" where
  "summary_to_js s =
     JObj [(''subtotal'', JNum (subtotal s)), (''discount'', JNum (discount s)),
           (''freight'', JNum (freight s)), (''tax'', JNum (tax s)),
           (''total'', JNum (InvoiceSummary.total s))]"

definition invoice_to_js :: "AIInvoiceResponse \<Rightarrow> (string \<times> jsval) list" where
  "invoice_to_js invoiceData =
     [(''invoice_id'', JStr (invoice_id invoiceData)), (''invoice_date'', invoice_date invoiceData),
      (''due_date'', due_date invoiceData), (''payment_terms'', payment_terms invoiceData),
      (''shipping_method'', shipping_method invoiceData), (''bill_to'', contact_to_js (bill_to invoiceData)),
      (''vendor'', contact_to_js (vendor invoiceData)), (''items'', JArr (map item_to_js (items invoiceData))),
      (''summary'', summary_to_js (summary invoiceData)), (''notes'', notes invoiceData),
      (''payment_status'', payment_status invoiceData)]"

definition saveInvoiceToDatabase :: "platform \<Rightarrow> AIInvoiceResponse \<Rightarrow> string \<Rightarrow> bool" where
  "saveInvoiceToDatabase p invoiceData poNumber =
     (if base_url_missing p then False
      else case fetch p \<lparr> method = ''POST'', url = base_url p @ ''/invoices'',
                            body = JObj (invoice_to_js invoiceData @
                              [(''po_number'', JStr poNumber),
                               (''created_at'', JStr (toISOString p (date_now p))),
                               (''updated_at'', JStr (toISOString p (date_now p)))]) \<rparr> of
             Inl e \<Rightarrow> False
           | Inr r \<Rightarrow> ok r)"

text \<open>
  The message of a response that is not ok, shared by the services: the server's
  \<^verbatim>\<open>message\<close> or \<^verbatim>\<open>error\<close> when the body is JSON, else the status text, else
  \<^verbatim>\<open>Server responded with <status>\<close>.
\<close>

definition server_error_message :: "platform \<Rightarrow> response \<Rightarrow> jsval" where
  "server_error_message p r =
     (let errorMessage = JStr (''Server responded with '' @ nat_to_string (status r))
      in case and_then (response_json p r) (\<lambda>errorData.
              and_then (js_get_checked errorData ''message'') (\<lambda>m.
                Inr (js_or m (js_or (js_get errorData ''error'') errorMessage)))) of
           Inl parseError \<Rightarrow> js_or (JStr (statusText r)) errorMessage
         | Inr v \<Rightarrow> v)"

text \<open>The body of the \<^verbatim>\<open>try\<close> block of step 2; \<open>Inl\<close> is what reaches its \<^verbatim>\<open>catch\<close>.\<close>

definition generate_via_api :: "platform \<Rightarrow> string \<Rightarrow> js_exn + InvoiceGenerationResult" where
  "generate_via_api p trimmedPoNumber =
     and_then (fetch p \<lparr> method = ''POST'', url = base_url p @ ''/ai/invoice'',
                          body = JObj [(''po_number'', JStr trimmedPoNumber)] \<rparr>) (\<lambda>r.
       if \<not> ok r then
         and_then (to_text p (server_error_message p r)) (\<lambda>errorMessage.
           Inr (generation_failure (''Failed to generate invoice: '' @ errorMessage) None))
       else
         and_then (body_text r) (\<lambda>responseText.
           case JSON_parse p responseText of
             Inl parseError \<Rightarrow>
               Inr (generation_failure ''Invalid JSON response from server'' (Some (JStr responseText)))
           | Inr rawResponseData \<Rightarrow>
               and_then (validateAndNormalizeInvoiceResponse p rawResponseData (Some trimmedPoNumber))
                 (\<lambda>normalizedInvoice.
                    case normalizedInvoice of
                      None \<Rightarrow>
                        Inr (generation_failure
                          ''Invalid response structure from API. The response may be missing required fields.''
                          (Some rawResponseData))
                    | Some normalized \<Rightarrow>
                        (let saved = saveInvoiceToDatabase p normalized trimmedPoNumber
                         in Inr (generation_success normalized Api)))))"

definition fallbackInvoice :: "platform \<Rightarrow> string \<Rightarrow> AIInvoiceResponse" where
  "fallbackInvoice p trimmedPoNumber =
     \<lparr> invoice_id = generateFallbackInvoiceId p trimmedPoNumber,
       invoice_date = JStr (iso_date p (date_now p)),
       due_date = JStr (iso_date p (date_now p + thirty_days)),
       payment_terms = JStr ''Net 30'',
       shipping_method = JStr ''Standard'',
       bill_to = \<lparr> company = JStr ''Unknown Company'', contact = JStr ''Unknown Contact'',
                   address = JStr ''Unknown Address'', phone = JStr [], email = JStr [] \<rparr>,
       vendor = \<lparr> company = JStr ''Unknown Vendor'', contact = JStr ''Unknown Contact'',
                  address = JStr ''Unknown Address'', phone = JStr [], email = JStr [] \<rparr>,
       items = [],
       summary = \<lparr> subtotal = Fin 0, discount = Fin 0, freight = Fin 0, tax = Fin 0,
                   InvoiceSummary.total = Fin 0 \<rparr>,
       notes = JStr (''Fallback invoice generated for PO '' @ trimmedPoNumber @
                     '' due to API unavailability. Please update with correct information.''),
       payment_status = JStr ''Pending'' \<rparr>"

text \<open>
  The \<^verbatim>\<open>catch\<close> block of step 2. Building the fallback invoice cannot throw, so the
  inner \<^verbatim>\<open>try\<close> always returns.
\<close>

definition handle_generation_error :: "platform \<Rightarrow> string \<Rightarrow> js_exn \<Rightarrow> InvoiceGenerationResult" where
  "handle_generation_error p trimmedPoNumber err =
     (case err of
        Error msg \<Rightarrow>
          if str_includes msg ''fetch''
          then generation_success (fallbackInvoice p trimmedPoNumber) Generated
          else generation_failure msg None
      | Thrown v \<Rightarrow>
          generation_failure ''An unexpected error occurred during invoice generation'' None)"

definition generateAIInvoice :: "platform \<Rightarrow> string \<Rightarrow> InvoiceGenerationResult" where
  "generateAIInvoice p poNumber =
     (if poNumber = [] \<or> trim poNumber = []
      then generation_failure ''Purchase Order number is required'' None
      else
        let trimmedPoNumber = trim poNumber
        in case getExistingInvoiceFromDatabase p trimmedPoNumber of
             Some existingInvoice \<Rightarrow> generation_success existingInvoice Database
           | None \<Rightarrow>
               if base_url_missing p
               then generation_failure ''API configuration error: Base URL not set'' None
               else (case generate_via_api p trimmedPoNumber of
                       Inr res \<Rightarrow> res
                     | Inl err \<Rightarrow> handle_generation_error p trimmedPoNumber err))"

section \<open>\<^verbatim>\<open>src/lib/invoice-error-handler.ts\<close>\<close>

record InvoiceError =
  code :: string
  message :: string
  details :: jsval
  timestamp :: string
  poNumber :: "string option"

text \<open>\<^verbatim>\<open>Partial<InvoiceError>\<close>: every field may be absent.\<close>

record PartialInvoiceError =
  code :: "string option"
  message :: "string option"
  details :: jsval
  poNumber :: "string option"





section \<open>\<^verbatim>\<open>src/lib/reminder-activity-tracker.ts\<close>\<close>

text \<open>
  A record keeps its timestamp as the instant it denotes: \<^verbatim>\<open>toISOString\<close> prints an
  instant with millisecond precision and \<^verbatim>\<open>new Date(text).getTime()\<close> reads it back.
\<close>

datatype reminder_status = Sent | Failed

record ReminderActivity =
  timestamp :: nat
  status :: reminder_status
  message :: string

text \<open>
  What \<^verbatim>\<open>localStorage\<close> holds under a key, seen through \<^verbatim>\<open>JSON.parse\<close>: the empty text,
  a text that does not parse (or parses to \<^verbatim>\<open>null\<close>, on which reading the timestamp
  throws as well), a value without a valid timestamp, or an activity record as
  \<^verbatim>\<open>JSON.stringify\<close> wrote it. The storage is an ordered list of entries, as
  \<^verbatim>\<open>localStorage.key(i)\<close> enumerates them; writing is taken to succeed.
\<close>

datatype stored = EmptyText | Unparsable | Undated | Activity ReminderActivity

type_synonym storage = "(string \<times> stored) list"

definition activity_key :: "string \<Rightarrow> string" where
  "activity_key po = ''reminder_activity_'' @ po"

definition startsWith :: "string \<Rightarrow> string \<Rightarrow> bool" where
  "startsWith s pre = (take (length pre) s = pre)"

definition one_hour :: int where
  "one_hour = 60 * 60 * 1000"

text \<open>
  One round of the loop of \<^verbatim>\<open>cleanupOldReminderActivity\<close> at the key \<open>key\<close>; \<open>None\<close> is
  an exception, which ends the sweep.
\<close>

definition sweep_entry :: "int \<Rightarrow> string \<Rightarrow> storage \<Rightarrow> storage option" where
  "sweep_entry oneHourAgo key ls =
     (if key \<noteq> [] \<and> startsWith key ''reminder_activity_'' then
        (case map_of ls key of
           Some (Activity activity) \<Rightarrow>
             Some (if int (ReminderActivity.timestamp activity) < oneHourAgo
                   then AList.delete key ls else ls)
         | Some Unparsable \<Rightarrow> None
         | _ \<Rightarrow> Some ls)
      else Some ls)"

text \<open>
  \<^verbatim>\<open>for (let i = 0; i < localStorage.length; i++)\<close>: the length is read again in every
  round, and a removal shifts the later keys down by one.
\<close>

function cleanup_loop :: "int \<Rightarrow> nat \<Rightarrow> storage \<Rightarrow> storage" where
  "cleanup_loop oneHourAgo i ls =
     (if i < length ls then
        (case sweep_entry oneHourAgo (fst (ls ! i)) ls of
           None \<Rightarrow> ls
         | Some ls' \<Rightarrow> cleanup_loop oneHourAgo (i + 1) ls')
      else ls)"
  by pat_completeness auto
termination
  by (relation "measure (\<lambda>(h, i, ls). length ls - i)")
     (auto simp: sweep_entry_def split: if_splits option.splits stored.splits
           intro: le_less_trans [OF diff_le_mono [OF length_delete_le]])

declare cleanup_loop.simps [simp del]

definition cleanupOldReminderActivity :: "platform \<Rightarrow> storage \<Rightarrow> storage" where
  "cleanupOldReminderActivity p ls = cleanup_loop (int (date_now p) - one_hour) 0 ls"

definition trackReminderActivity ::
  "platform \<Rightarrow> string \<Rightarrow> reminder_status \<Rightarrow> string \<Rightarrow> storage \<Rightarrow> storage" where
  "trackReminderActivity p po st msg ls =
     (let activity = \<lparr> ReminderActivity.timestamp = date_now p, status = st,
                        ReminderActivity.message = msg \<rparr>
      in cleanupOldReminderActivity p (AList.update (activity_key po) (Activity activity) ls))"

definition getRecentReminderActivity :: "platform \<Rightarrow> string \<Rightarrow> storage \<Rightarrow> ReminderActivity option" where
  "getRecentReminderActivity p po ls =
     (case map_of ls (activity_key po) of
        Some (Activity activity) \<Rightarrow>
          if int (ReminderActivity.timestamp activity) > int (date_now p) - one_hour
          then Some activity else None
      | _ \<Rightarrow> None)"

section \<open>Regular expressions\<close>

datatype rx = Zero | One | Cls "char \<Rightarrow> bool" | Seq rx rx | Alt rx rx | Star rx

definition Plus_rx :: "rx \<Rightarrow> rx" where
  "Plus_rx r = Seq r (Star r)"

fun nullable :: "rx \<Rightarrow> bool" where
  "nullable Zero = False"
| "nullable One = True"
| "nullable (Cls f) = False"
| "nullable (Seq r s) = (nullable r \<and> nullable s)"
| "nullable (Alt r s) = (nullable r \<or> nullable s)"
| "nullable (Star r) = True"

fun deriv :: "char \<Rightarrow> rx \<Rightarrow> rx" where
  "deriv c Zero = Zero"
| "deriv c One = Zero"
| "deriv c (Cls f) = (if f c then One else Zero)"
| "deriv c (Seq r s) =
     (if nullable r then Alt (Seq (deriv c r) s) (deriv c s) else Seq (deriv c r) s)"
| "deriv c (Alt r s) = Alt (deriv c r) (deriv c s)"
| "deriv c (Star r) = Seq (deriv c r) (Star r)"

text \<open>\<^verbatim>\<open>/^r$/.test(s)\<close>: the whole of \<open>s\<close> matches \<open>r\<close>.\<close>

definition rx_test :: "rx \<Rightarrow> string \<Rightarrow> bool" where
  "rx_test r s = nullable (foldl (\<lambda>r c. deriv c r) r s)"

section \<open>\<^verbatim>\<open>send-invoice-service\<close> (second document of \<^verbatim>\<open>src/lib/send-reminder-service.ts\<close>)\<close>

text \<open>
  The functions are typed on \<^verbatim>\<open>AIInvoiceResponse\<close>, yet they test at run time what the
  type promises (\<^verbatim>\<open>typeof invoiceData.summary.total !== "number"\<close>), so the invoice is
  the run-time value here. A method call on a value that lacks the method throws.
\<close>

definition not_a_function :: "string \<Rightarrow> js_exn" where
  "not_a_function expr = Error (expr @ '' is not a function'')"

definition call_trim :: "string \<Rightarrow> jsval \<Rightarrow> js_exn + string" where
  "call_trim expr v =
     (case v of
        JStr s \<Rightarrow> Inr (trim s)
      | _ \<Rightarrow> if nullish v then Inl (Error (cannot_read v ''trim''))
             else Inl (not_a_function (expr @ ''.trim'')))"

text \<open>\<^verbatim>\<open>toLowerCase\<close> on code units below 256: A to Z and the capital letters of Latin-1.\<close>

definition lower_char :: "char \<Rightarrow> char" where
  "lower_char c =
     (let n = (of_char c :: nat)
      in if (65 \<le> n \<and> n \<le> 90) \<or> (192 \<le> n \<and> n \<le> 222 \<and> n \<noteq> 215) then char_of (n + 32) else c)"

definition call_toLowerCase :: "string \<Rightarrow> jsval \<Rightarrow> js_exn + string" where
  "call_toLowerCase expr v =
     (case v of
        JStr s \<Rightarrow> Inr (map lower_char s)
      | _ \<Rightarrow> if nullish v then Inl (Error (cannot_read v ''toLowerCase''))
             else Inl (not_a_function (expr @ ''.toLowerCase'')))"

definition call_toFixed2 :: "platform \<Rightarrow> string \<Rightarrow> jsval \<Rightarrow> js_exn + string" where
  "call_toFixed2 p expr v =
     (case v of
        JNum n \<Rightarrow> Inr (number_toFixed2 p n)
      | _ \<Rightarrow> if nullish v then Inl (Error (cannot_read v ''toFixed''))
             else Inl (not_a_function (expr @ ''.toFixed'')))"

text \<open>\<^verbatim>\<open>/^[^\s@]+@[^\s@]+\.[^\s@]+$/\<close>\<close>

definition not_space_at :: rx where
  "not_space_at = Cls (\<lambda>c. \<not> is_space c \<and> c \<noteq> CHR ''@'')"

definition emailRegex :: rx where
  "emailRegex =
     Seq (Plus_rx not_space_at)
       (Seq (Cls (\<lambda>c. c = CHR ''@''))
          (Seq (Plus_rx not_space_at)
             (Seq (Cls (\<lambda>c. c = CHR ''.'')) (Plus_rx not_space_at))))"

text \<open>\<^verbatim>\<open>!v || v.trim() === ""\<close>\<close>

definition falsy_or_blank :: "string \<Rightarrow> jsval \<Rightarrow> js_exn + bool" where
  "falsy_or_blank expr v =
     (if \<not> truthy v then Inr True else and_then (call_trim expr v) (\<lambda>t. Inr (t = [])))"

definition validateInvoiceData :: "jsval \<Rightarrow> string \<Rightarrow> js_exn + string option" where
  "validateInvoiceData invoiceData recipient =
     (if recipient = [] \<or> trim recipient = [] then Inr (Some ''Recipient email address is required'')
      else if \<not> rx_test emailRegex (trim recipient) then Inr (Some ''Please provide a valid email address'')
      else
        and_then (js_get_checked invoiceData ''invoice_id'') (\<lambda>inv_id.
        and_then (falsy_or_blank ''invoiceData.invoice_id'' inv_id) (\<lambda>id_missing.
          if id_missing then Inr (Some ''Invoice ID is missing'')
          else if \<not> truthy (js_get invoiceData ''summary'') \<or>
                  typeof (js_get (js_get invoiceData ''summary'') ''total'') \<noteq> ''number''
          then Inr (Some ''Invoice total is invalid'')
          else if \<not> truthy (js_get invoiceData ''items'') \<or>
                  js_get (js_get invoiceData ''items'') ''length'' = JNum (Fin 0)
          then Inr (Some ''Invoice must contain at least one item'')
          else Inr None)))"

text \<open>\<^verbatim>\<open>s.replace(/[^a-z0-9]/g, "")\<close>\<close>

definition is_lower_alnum :: "char \<Rightarrow> bool" where
  "is_lower_alnum c =
     (let n = (of_char c :: nat) in (97 \<le> n \<and> n \<le> 122) \<or> (48 \<le> n \<and> n \<le> 57))"

definition getDefaultRecipient :: "jsval \<Rightarrow> js_exn + string" where
  "getDefaultRecipient invoiceData =
     and_then (js_get_checked invoiceData ''bill_to'') (\<lambda>billTo.
     and_then (js_get_checked billTo ''email'') (\<lambda>billEmail.
     and_then (falsy_or_blank ''invoiceData.bill_to.email'' billEmail) (\<lambda>bill_blank.
       if \<not> bill_blank then call_trim ''invoiceData.bill_to.email'' billEmail
       else
         and_then (js_get_checked (js_get invoiceData ''vendor'') ''email'') (\<lambda>vendorEmail.
         and_then (falsy_or_blank ''invoiceData.vendor.email'' vendorEmail) (\<lambda>vendor_blank.
           if \<not> vendor_blank then call_trim ''invoiceData.vendor.email'' vendorEmail
           else
             (let companyName =
                    js_or (js_get billTo ''company'')
                      (js_or (js_get (js_get invoiceData ''vendor'') ''company'') (JStr ''company''))
              in and_then (call_toLowerCase ''companyName'' companyName) (\<lambda>lowered.
                   Inr (filter is_lower_alnum lowered @ ''@example.com''))))))))"

text \<open>One element of \<^verbatim>\<open>invoiceData.items.map(...)\<close> in \<^verbatim>\<open>mapInvoiceToPayload\<close>.\<close>

definition item_line :: "platform \<Rightarrow> jsval \<Rightarrow> js_exn + jsval" where
  "item_line p item =
     and_then (js_get_checked item ''description'') (\<lambda>d.
     and_then (to_text p d) (\<lambda>dt.
     and_then (to_text p (js_get item ''qty'')) (\<lambda>qt.
     and_then (call_toFixed2 p ''item.unit_price'' (js_get item ''unit_price'')) (\<lambda>pt.
       Inr (JStr (dt @ '' (Qty: '' @ qt @ '', Unit Price: $'' @ pt @ '')''))))))"

fun item_lines :: "platform \<Rightarrow> jsval list \<Rightarrow> js_exn + jsval list" where
  "item_lines p [] = Inr []"
| "item_lines p (item # rest) =
     and_then (item_line p item) (\<lambda>x. and_then (item_lines p rest) (\<lambda>xs. Inr (x # xs)))"

definition call_items_map :: "platform \<Rightarrow> jsval \<Rightarrow> js_exn + jsval" where
  "call_items_map p v =
     (case v of
        JArr xs \<Rightarrow> and_then (item_lines p xs) (\<lambda>ys. Inr (JArr ys))
      | _ \<Rightarrow> if nullish v then Inl (Error (cannot_read v ''map''))
             else Inl (not_a_function ''invoiceData.items.map''))"

definition mapInvoiceToPayload :: "platform \<Rightarrow> jsval \<Rightarrow> string \<Rightarrow> string \<Rightarrow> js_exn + jsval" where
  "mapInvoiceToPayload p invoiceData po recipient =
     and_then (js_get_checked invoiceData ''bill_to'') (\<lambda>billTo.
     and_then (js_get_checked billTo ''company'') (\<lambda>billCompany.
     and_then (js_get_checked (js_get invoiceData ''vendor'') ''company'') (\<lambda>vendorCompany.
     and_then (js_get_checked (js_get invoiceData ''summary'') ''total'') (\<lambda>tot.
     and_then (call_items_map p (js_get invoiceData ''items'')) (\<lambda>lines.
       Inr (JObj [(''recipient'', JStr (trim recipient)),
                  (''invoice'', JObj [(''po_number'', JStr po),
                                      (''bill_to'', js_or billCompany (JStr ''Unknown Company'')),
                                      (''vendor'', js_or vendorCompany (JStr ''Unknown Vendor'')),
                                      (''total'', tot),
                                      (''items'', lines)])]))))))"

record SendInvoiceResult =
  success :: bool
  message :: "jsval option"
  error :: "jsval option"
  details :: "jsval option"

definition send_failure :: "string \<Rightarrow> SendInvoiceResult" where
  "send_failure msg =
     \<lparr> SendInvoiceResult.success = False, SendInvoiceResult.message = None,
       SendInvoiceResult.error = Some (JStr msg), SendInvoiceResult.details = None \<rparr>"

text \<open>The \<^verbatim>\<open>try\<close> block of \<^verbatim>\<open>sendInvoice\<close>; \<open>Inl\<close> is what reaches its \<^verbatim>\<open>catch\<close>.\<close>

definition dispatch_invoice :: "platform \<Rightarrow> jsval \<Rightarrow> string \<Rightarrow> string \<Rightarrow> js_exn + SendInvoiceResult" where
  "dispatch_invoice p invoiceData po finalRecipient =
     and_then (mapInvoiceToPayload p invoiceData po finalRecipient) (\<lambda>payload.
     and_then (fetch p \<lparr> method = ''POST'', url = base_url p @ ''/ai/send-invoice'', body = payload \<rparr>) (\<lambda>r.
       if \<not> ok r then
         and_then (to_text p (server_error_message p r)) (\<lambda>errorMessage.
           Inr \<lparr> SendInvoiceResult.success = False, SendInvoiceResult.message = None,
                 SendInvoiceResult.error = Some (JStr (''Failed to send invoice: '' @ errorMessage)),
                 SendInvoiceResult.details = Some (JObj [(''status'', JNum (Fin (of_nat (response.status r))))]) \<rparr>)
       else
         and_then (response_json p r) (\<lambda>responseData.
         and_then (js_get_checked responseData ''success'') (\<lambda>s.
           if truthy s then
             Inr \<lparr> SendInvoiceResult.success = True,
                   SendInvoiceResult.message =
                     Some (js_or (js_get responseData ''message'') (JStr ''Invoice sent successfully'')),
                   SendInvoiceResult.error = None, SendInvoiceResult.details = None \<rparr>
           else
             Inr \<lparr> SendInvoiceResult.success = False, SendInvoiceResult.message = None,
                   SendInvoiceResult.error =
                     Some (js_or (js_get responseData ''message'')
                             (JStr ''Unknown error occurred while sending invoice'')),
                   SendInvoiceResult.details = None \<rparr>))))"

definition handle_send_error :: "js_exn \<Rightarrow> SendInvoiceResult" where
  "handle_send_error err =
     (case err of
        Error msg \<Rightarrow>
          if str_includes msg ''fetch''
          then send_failure ''Network error: Unable to connect to the server. Please check your connection and try again.''
          else send_failure (''Error sending invoice: '' @ msg)
      | Thrown v \<Rightarrow> send_failure ''An unexpected error occurred while sending the invoice'')"

text \<open>
  \<^verbatim>\<open>sendInvoice(invoiceData, poNumber, recipient?)\<close>; the recipient is \<open>None\<close> when the
  argument is omitted. The default recipient and the validation are computed outside
  the \<^verbatim>\<open>try\<close> block, so an exception there rejects the call (\<open>Inl\<close>).
\<close>

definition sendInvoice :: "platform \<Rightarrow> jsval \<Rightarrow> string \<Rightarrow> string option \<Rightarrow> js_exn + SendInvoiceResult" where
  "sendInvoice p invoiceData po recipient =
     (if base_url_missing p then Inr (send_failure ''API configuration error: Base URL not set'')
      else
        and_then (case recipient of
                    Some r \<Rightarrow> if r \<noteq> [] then Inr r else getDefaultRecipient invoiceData
                  | None \<Rightarrow> getDefaultRecipient invoiceData) (\<lambda>finalRecipient.
        and_then (validateInvoiceData invoiceData finalRecipient) (\<lambda>validationError.
          case validationError of
            Some msg \<Rightarrow> Inr (send_failure msg)
          | None \<Rightarrow>
              (case dispatch_invoice p invoiceData po finalRecipient of
                 Inr res \<Rightarrow> Inr res
               | Inl err \<Rightarrow> Inr (handle_send_error err)))))"

section \<open>Vocabulary of the properties\<close>

text \<open>The number \<^verbatim>\<open>Number(v)\<close> yields when the conversion does not throw.\<close>

definition number_value :: "jsval \<Rightarrow> jsnum" where
  "number_value v = (case to_number v of Inr n \<Rightarrow> n | Inl e \<Rightarrow> NaN)"

text \<open>
  A line item on which the callback of \<^verbatim>\<open>items.map\<close> cannot throw: it is neither null
  nor undefined, and none of the four values it hands to \<^verbatim>\<open>Number\<close> is an object
  without a usable conversion method.
\<close>

definition item_convertible :: "jsval \<Rightarrow> bool" where
  "item_convertible item =
     (\<not> nullish item \<and>
      \<not> to_primitive_throws (js_get item ''qty'') \<and>
      \<not> to_primitive_throws (js_get item ''unit_price'') \<and>
      \<not> to_primitive_throws (js_get item ''unitPrice'') \<and>
      \<not> to_primitive_throws (js_get item ''total''))"

text \<open>
  A response body on which building the invoice cannot throw: every element of an
  \<^verbatim>\<open>items\<close> array is convertible, and so are the five summary values.
\<close>

definition summary_fields :: "string list" where
  "summary_fields = [''subtotal'', ''discount'', ''freight'', ''tax'', ''total'']"

definition response_convertible :: "jsval \<Rightarrow> bool" where
  "response_convertible actualData =
     ((case js_get actualData ''items'' of
         JArr xs \<Rightarrow> list_all item_convertible xs
       | _ \<Rightarrow> True) \<and>
      list_all (\<lambda>f. \<not> to_primitive_throws (js_get_opt (js_get actualData ''summary'') f))
               summary_fields)"

text \<open>The identifier the normalizer resolves from the response, before any fallback.\<close>

definition resolved_invoice_id :: "jsval \<Rightarrow> string option" where
  "resolved_invoice_id actualData = map_option trim (usable_id (invoiceId_candidate actualData))"

text \<open>
  The resolution as the specification words it: the keys are tried in order and the
  first value that is a string, non-empty after trimming, wins.
\<close>

definition identifier_keys :: "string list" where
  "identifier_keys = [''invoice_id'', ''invoiceId'', ''id'', ''invoice_number'']"

fun spec_first_nonblank :: "jsval \<Rightarrow> string list \<Rightarrow> string option" where
  "spec_first_nonblank actualData [] = None"
| "spec_first_nonblank actualData (k # ks) =
     (case js_get actualData k of
        JStr s \<Rightarrow> if trim s \<noteq> [] then Some (trim s) else spec_first_nonblank actualData ks
      | _ \<Rightarrow> spec_first_nonblank actualData ks)"

fun is_string :: "jsval \<Rightarrow> bool" where
  "is_string (JStr s) = True"
| "is_string v = False"

text \<open>A value that \<^verbatim>\<open>||\<close> either skips or passes on as a string.\<close>

definition stringish :: "jsval \<Rightarrow> bool" where
  "stringish v = (is_string v \<or> \<not> truthy v)"

text \<open>An identifier value that is falsy or a string that is not blank.\<close>

definition clean_identifier :: "jsval \<Rightarrow> bool" where
  "clean_identifier v = (\<not> truthy v \<or> (case v of JStr s \<Rightarrow> trim s \<noteq> [] | _ \<Rightarrow> False))"

text \<open>
  The synthesized identifier \<^verbatim>\<open>INV-{po}-{digits}-{3 digits}\<close>, checked from both ends.
\<close>

definition fallback_id_pattern :: "string \<Rightarrow> string \<Rightarrow> bool" where
  "fallback_id_pattern po s =
     (let pre = ''INV-'' @ po @ ''-'';
          rest = drop (length pre) s;
          ts = take (length rest - 4) rest;
          tail = drop (length rest - 4) rest
      in take (length pre) s = pre \<and> 5 \<le> length rest \<and>
         list_all is_digit ts \<and> hd tail = CHR ''-'' \<and> list_all is_digit (tl tail))"

text \<open>The canonical shape: what is defined, and what is text.\<close>

definition contact_defined :: "InvoiceContact \<Rightarrow> bool" where
  "contact_defined c =
     (\<not> nullish (company c) \<and> \<not> nullish (contact c) \<and> \<not> nullish (address c) \<and>
      \<not> nullish (phone c) \<and> \<not> nullish (email c))"

definition contact_strings :: "InvoiceContact \<Rightarrow> bool" where
  "contact_strings c =
     (is_string (company c) \<and> is_string (contact c) \<and> is_string (address c) \<and>
      is_string (phone c) \<and> is_string (email c))"

definition item_defined :: "InvoiceItemData \<Rightarrow> bool" where
  "item_defined it =
     (\<not> nullish (description it) \<and> \<not> nullish (unit it) \<and> qty it \<noteq> NaN \<and>
      unit_price it \<noteq> NaN \<and> InvoiceItemData.total it \<noteq> NaN)"

definition summary_numeric :: "InvoiceSummary \<Rightarrow> bool" where
  "summary_numeric s =
     (subtotal s \<noteq> NaN \<and> discount s \<noteq> NaN \<and> freight s \<noteq> NaN \<and> tax s \<noteq> NaN \<and>
      InvoiceSummary.total s \<noteq> NaN)"

definition invoice_populated :: "AIInvoiceResponse \<Rightarrow> bool" where
  "invoice_populated out =
     (invoice_id out \<noteq> [] \<and>
      \<not> nullish (invoice_date out) \<and> \<not> nullish (due_date out) \<and>
      \<not> nullish (payment_terms out) \<and> \<not> nullish (shipping_method out) \<and>
      \<not> nullish (notes out) \<and> \<not> nullish (payment_status out) \<and>
      contact_defined (bill_to out) \<and> contact_defined (vendor out) \<and>
      list_all item_defined (items out) \<and> summary_numeric (summary out))"

definition invoice_text_is_string :: "AIInvoiceResponse \<Rightarrow> bool" where
  "invoice_text_is_string out =
     (is_string (invoice_date out) \<and> is_string (due_date out) \<and>
      is_string (payment_terms out) \<and> is_string (shipping_method out) \<and>
      is_string (notes out) \<and> is_string (payment_status out) \<and>
      contact_strings (bill_to out) \<and> contact_strings (vendor out))"

text \<open>Every value the response offers for a text field of the invoice.\<close>

definition contact_fields :: "string list" where
  "contact_fields = [''company'', ''contact'', ''address'', ''phone'', ''email'']"

definition text_candidates :: "jsval \<Rightarrow> jsval list" where
  "text_candidates actualData =
     map (js_get actualData)
       [''invoice_date'', ''invoiceDate'', ''due_date'', ''dueDate'', ''payment_terms'',
        ''paymentTerms'', ''shipping_method'', ''shippingMethod'', ''notes'',
        ''payment_status'', ''paymentStatus''] @
     map (js_get_opt (js_get actualData ''bill_to'')) contact_fields @
     map (js_get_opt (js_get actualData ''billTo'')) contact_fields @
     map (js_get_opt (js_get actualData ''vendor'')) contact_fields"

text \<open>The \<^verbatim>\<open>invoice_id\<close> of the normalizer's result, when it returns an invoice.\<close>

definition normalized_id :: "platform \<Rightarrow> jsval \<Rightarrow> string option \<Rightarrow> string option" where
  "normalized_id p raw hint =
     (case validateAndNormalizeInvoiceResponse p raw hint of
        Inr (Some out) \<Rightarrow> Some (invoice_id out)
      | _ \<Rightarrow> None)"

text \<open>
  What it means for a string to match a regular expression as a whole; \<open>rx_test\<close>
  decides it by derivatives.
\<close>

inductive matches :: "rx \<Rightarrow> string \<Rightarrow> bool" where
  m_One: "matches One []"
| m_Cls: "f c \<Longrightarrow> matches (Cls f) [c]"
| m_Seq: "matches r u \<Longrightarrow> matches s v \<Longrightarrow> matches (Seq r s) (u @ v)"
| m_AltL: "matches r w \<Longrightarrow> matches (Alt r s) w"
| m_AltR: "matches s w \<Longrightarrow> matches (Alt r s) w"
| m_StarNil: "matches (Star r) []"
| m_StarStep: "matches r u \<Longrightarrow> matches (Star r) v \<Longrightarrow> matches (Star r) (u @ v)"

text \<open>
  The checks of \<^verbatim>\<open>validateInvoiceData\<close> as the specification lists them, each with its
  message, and the message of the first one that fails.
\<close>

definition first_failing :: "(bool \<times> string) list \<Rightarrow> string option" where
  "first_failing checks = map_option snd (find fst checks)"

definition recipient_missing :: "string \<Rightarrow> bool" where
  "recipient_missing r = (r = [] \<or> trim r = [])"

definition email_shaped :: "string \<Rightarrow> bool" where
  "email_shaped r = rx_test emailRegex (trim r)"

definition invoice_id_missing :: "jsval \<Rightarrow> bool" where
  "invoice_id_missing invoiceData =
     (case js_get invoiceData ''invoice_id'' of JStr s \<Rightarrow> trim s = [] | v \<Rightarrow> \<not> truthy v)"

definition total_not_number :: "jsval \<Rightarrow> bool" where
  "total_not_number invoiceData =
     (\<not> truthy (js_get invoiceData ''summary'') \<or>
      typeof (js_get (js_get invoiceData ''summary'') ''total'') \<noteq> ''number'')"

definition items_empty :: "jsval \<Rightarrow> bool" where
  "items_empty invoiceData =
     (\<not> truthy (js_get invoiceData ''items'') \<or>
      js_get (js_get invoiceData ''items'') ''length'' = JNum (Fin 0))"

definition invoice_checks :: "jsval \<Rightarrow> string \<Rightarrow> (bool \<times> string) list" where
  "invoice_checks invoiceData r =
     [(recipient_missing r, ''Recipient email address is required''),
      (\<not> email_shaped r, ''Please provide a valid email address''),
      (invoice_id_missing invoiceData, ''Invoice ID is missing''),
      (total_not_number invoiceData, ''Invoice total is invalid''),
      (items_empty invoiceData, ''Invoice must contain at least one item'')]"

text \<open>
  An invoice value whose \<^verbatim>\<open>invoice_id\<close> is as its type says a string, or is absent or
  falsy: on it the third check cannot throw.
\<close>

definition id_is_text :: "jsval \<Rightarrow> bool" where
  "id_is_text invoiceData =
     (\<not> nullish invoiceData \<and>
      (case js_get invoiceData ''invoice_id'' of JStr s \<Rightarrow> True | v \<Rightarrow> \<not> truthy v))"

text \<open>
  The default recipient as the specification words it, on an invoice whose contacts
  are objects with textual (or absent) \<^verbatim>\<open>email\<close> and \<^verbatim>\<open>company\<close>: the bill-to email if
  it is not blank, else the vendor email if it is not blank, else the company name in
  lower case without its non-alphanumeric characters, at \<^verbatim>\<open>example.com\<close>.
\<close>

definition text_or_absent :: "jsval \<Rightarrow> bool" where
  "text_or_absent v = (is_string v \<or> v = JUndefined)"

definition contacts_typed :: "jsval \<Rightarrow> bool" where
  "contacts_typed invoiceData =
     (\<not> nullish invoiceData \<and>
      \<not> nullish (js_get invoiceData ''bill_to'') \<and> \<not> nullish (js_get invoiceData ''vendor'') \<and>
      text_or_absent (js_get (js_get invoiceData ''bill_to'') ''email'') \<and>
      text_or_absent (js_get (js_get invoiceData ''vendor'') ''email'') \<and>
      text_or_absent (js_get (js_get invoiceData ''bill_to'') ''company'') \<and>
      text_or_absent (js_get (js_get invoiceData ''vendor'') ''company''))"

fun field_text :: "jsval \<Rightarrow> string" where
  "field_text (JStr s) = s"
| "field_text v = []"

definition default_recipient_spec :: "jsval \<Rightarrow> string" where
  "default_recipient_spec invoiceData =
     (let billEmail = field_text (js_get (js_get invoiceData ''bill_to'') ''email'');
          vendorEmail = field_text (js_get (js_get invoiceData ''vendor'') ''email'');
          billCompany = field_text (js_get (js_get invoiceData ''bill_to'') ''company'');
          vendorCompany = field_text (js_get (js_get invoiceData ''vendor'') ''company'');
          companyName = (if billCompany \<noteq> [] then billCompany
                         else if vendorCompany \<noteq> [] then vendorCompany else ''company'')
      in if trim billEmail \<noteq> [] then trim billEmail
         else if trim vendorEmail \<noteq> [] then trim vendorEmail
         else filter is_lower_alnum (map lower_char companyName) @ ''@example.com'')"

section \<open>Example inputs\<close>

text \<open>
  A platform whose network is down, read at 2023-11-14T22:13:20.123Z; its calendar
  function is given at the two instants the examples print, and its draw is the
  binary64 value nearest to 0.007, which is \<open>8070450532247929 / 2\<^sup>6\<^sup>0\<close>.
\<close>

definition offline :: platform where
  "offline =
     \<lparr> API_BASE_URL = Some ''https://api.example.com'',
       date_now = 1700000000123,
       math_random = 8070450532247929 / 1152921504606846976,
       toISOString = (\<lambda>ms. if ms = 1700000000123 then ''2023-11-14T22:13:20.123Z''
                            else ''2023-12-14T22:13:20.123Z''),
       JSON_parse = (\<lambda>s. Inl (Error ''Unexpected end of JSON input'')),
       number_toString = (\<lambda>n. ''NaN''),
       number_toFixed2 = (\<lambda>n. ''NaN''),
       fetch = (\<lambda>r. Inl (Error ''Failed to fetch'')) \<rparr>"


text \<open>Half an hour and sixty-one minutes after \<open>offline\<close>.\<close>

definition half_hour_later :: platform where
  "half_hour_later = offline \<lparr> date_now := 1700000000123 + 30 * 60 * 1000 \<rparr>"

definition sixty_one_minutes_later :: platform where
  "sixty_one_minutes_later = offline \<lparr> date_now := 1700000000123 + 61 * 60 * 1000 \<rparr>"

definition example_storage :: storage where
  "example_storage =
     [(''reminder_activity_PO-0'',
       Activity \<lparr> ReminderActivity.timestamp = 1600000000000, status = Failed,
                  ReminderActivity.message = ''Network error'' \<rparr>),
      (''theme'', Undated)]"

text \<open>Line items: a textual quantity, a zero quantity, and a null.\<close>

definition item_abc :: jsval where
  "item_abc = JObj [(''qty'', JStr ''abc''), (''unitPrice'', JNum (Fin 4))]"

definition item_zero :: jsval where
  "item_zero = JObj [(''description'', JStr ''Widget''), (''qty'', JNum (Fin 0)),
                     (''unit_price'', JStr ''5''), (''total'', JNum (Fin 10))]"

definition response_zero_qty :: jsval where
  "response_zero_qty =
     JObj [(''data'', JObj [(''id'', JStr ''X1''),
                            (''items'', JArr [item_abc, item_zero])])]"

text \<open>Responses: identifiers that block later keys, a numeric date, a null item.\<close>

definition blank_then_id :: jsval where
  "blank_then_id = JObj [(''invoice_id'', JStr ''   ''), (''invoiceId'', JStr ''ABC'')]"

definition number_then_id :: jsval where
  "number_then_id = JObj [(''invoice_id'', JNum (Fin 5)), (''invoiceId'', JStr ''ABC'')]"

definition missing_then_id :: jsval where
  "missing_then_id = JObj [(''invoice_id'', JNull), (''id'', JStr '' X1 '')]"

definition numeric_date_response :: jsval where
  "numeric_date_response =
     JObj [(''invoice_id'', JStr ''X1''), (''invoice_date'', JNum (Fin 20240101))]"

definition numeric_date_invoice :: AIInvoiceResponse where
  "numeric_date_invoice =
     \<lparr> invoice_id = ''X1'', invoice_date = JNum (Fin 20240101), due_date = JStr ''2023-12-14'',
       payment_terms = JStr ''Net 30'', shipping_method = JStr ''Standard'',
       bill_to = \<lparr> company = JStr ''Unknown Company'', contact = JStr ''Unknown Contact'',
                   address = JStr ''Unknown Address'', phone = JStr [], email = JStr [] \<rparr>,
       vendor = \<lparr> company = JStr ''Unknown Vendor'', contact = JStr ''Unknown Contact'',
                  address = JStr ''Unknown Address'', phone = JStr [], email = JStr [] \<rparr>,
       items = [],
       summary = \<lparr> subtotal = Fin 0, discount = Fin 0, freight = Fin 0, tax = Fin 0,
                   InvoiceSummary.total = Fin 0 \<rparr>,
       notes = JStr [], payment_status = JStr ''Pending'' \<rparr>"

definition null_item_response :: jsval where
  "null_item_response = JObj [(''items'', JArr [JNull])]"

text \<open>Invoices handed to the send service.\<close>

definition invoice_acme :: jsval where
  "invoice_acme =
     JObj [(''invoice_id'', JStr ''X1''),
           (''bill_to'', JObj [(''company'', JStr ''Acme Corp.''), (''email'', JStr [])]),
           (''vendor'', JObj [(''company'', JStr ''Globex''), (''email'', JStr [])]),
           (''items'', JArr [JObj [(''description'', JStr ''Widget''), (''qty'', JNum (Fin 2)),
                                   (''unit_price'', JNum (Fin 5))]]),
           (''summary'', JObj [(''total'', JNum (Fin 10))])]"

definition invoice_no_items :: jsval where
  "invoice_no_items =
     JObj [(''invoice_id'', JStr ''X1''), (''items'', JArr []),
           (''summary'', JObj [(''total'', JNum (Fin 10))])]"

definition invoice_nothing :: jsval where
  "invoice_nothing = JObj [(''invoice_id'', JStr []), (''items'', JArr [])]"

definition invoice_blank_bill_email :: jsval where
  "invoice_blank_bill_email =
     JObj [(''invoice_id'', JStr ''X1''),
           (''bill_to'', JObj [(''company'', JStr ''Acme Corp.''), (''email'', JStr ''  '')]),
           (''vendor'', JObj [(''company'', JStr ''Globex''), (''email'', JStr '' ap@globex.example '')])]"

text \<open>
  A platform whose server has no stored invoice and answers the generation call with
  the body \<^verbatim>\<open>{"items":[null]}\<close>.
\<close>

definition null_item_server :: platform where
  \<open>null_item_server =
     offline \<lparr> JSON_parse := (\<lambda>s. if s = ''{"items":[null]}'' then Inr null_item_response
                                  else Inl (Error ''Unexpected end of JSON input'')),
               fetch := (\<lambda>r. if method r = ''GET''
                              then Inr \<lparr> response.status = 404, statusText = ''Not Found'', body_text = Inr [] \<rparr>
                              else Inr \<lparr> response.status = 200, statusText = ''OK'',
                                         body_text = Inr ''{"items":[null]}'' \<rparr>) \<rparr>\<close>

section \<open>Properties\<close>

subsection \<open>The error buffer\<close>





subsection \<open>The reminder activity cache\<close>

lemma sweep_entry_keeps:
  assumes "map_of ls k = Some (Activity a)" "\<not> int (ReminderActivity.timestamp a) < h"
      and "sweep_entry h key ls = Some ls'"
  shows "map_of ls' k = Some (Activity a)"
  using assms
  by (cases "key = k")
     (auto simp: sweep_entry_def delete_conv' split: if_splits option.splits stored.splits)

lemma cleanup_loop_keeps:
  "map_of ls k = Some (Activity a) \<Longrightarrow> \<not> int (ReminderActivity.timestamp a) < h \<Longrightarrow>
   map_of (cleanup_loop h i ls) k = Some (Activity a)"
proof (induction h i ls rule: cleanup_loop.induct)
  case (1 h i ls)
  show ?case
  proof (cases "i < length ls")
    case False
    then show ?thesis using "1.prems" by (simp add: cleanup_loop.simps)
  next
    case True
    show ?thesis
    proof (cases "sweep_entry h (fst (ls ! i)) ls")
      case None
      then show ?thesis using True "1.prems" by (simp add: cleanup_loop.simps)
    next
      case (Some ls')
      have "map_of ls' k = Some (Activity a)"
        using sweep_entry_keeps [OF "1.prems" Some] .
      then have "map_of (cleanup_loop h (i + 1) ls') k = Some (Activity a)"
        using "1.IH" [OF True Some] "1.prems" by simp
      then show ?thesis using True Some by (simp add: cleanup_loop.simps)
    qed
  qed
qed

lemma track_stores:
  "map_of (trackReminderActivity p po st msg ls) (activity_key po) =
     Some (Activity \<lparr> ReminderActivity.timestamp = date_now p, status = st,
                       ReminderActivity.message = msg \<rparr>)"
  unfolding trackReminderActivity_def cleanupOldReminderActivity_def Let_def
  by (rule cleanup_loop_keeps) (simp_all add: update_conv' one_hour_def)

text \<open>
  A later write for another PO leaves the record in place as long as its own clock is
  within the hour of the record.
\<close>

lemma track_other_keeps:
  assumes "map_of ls (activity_key po) = Some (Activity a)" "po' \<noteq> po"
      and "int (date_now p') - one_hour \<le> int (ReminderActivity.timestamp a)"
  shows "map_of (trackReminderActivity p' po' st msg ls) (activity_key po) = Some (Activity a)"
proof -
  have "activity_key po' \<noteq> activity_key po"
    using assms(2) by (simp add: activity_key_def)
  then have "map_of (AList.update (activity_key po') v ls) (activity_key po) = Some (Activity a)" for v
    using assms(1) by (simp add: update_conv')
  then show ?thesis
    unfolding trackReminderActivity_def cleanupOldReminderActivity_def Let_def
    using assms(3) by (intro cleanup_loop_keeps) simp_all
qed

text \<open>
  Claim C6. A record written by \<^verbatim>\<open>trackReminderActivity\<close> at the instant T is returned
  by \<^verbatim>\<open>getRecentReminderActivity\<close> at every reading of the clock below T plus one hour,
  and \<^verbatim>\<open>null\<close> is returned at every reading from T plus one hour on, although the
  record is still in the storage: the sweep at the write leaves it there, and the read
  checks the window itself.
\<close>

theorem activity_expires_after_one_hour:
  "(int (date_now p') < int (date_now p) + 60 * 60 * 1000 \<longrightarrow>
      getRecentReminderActivity p' po (trackReminderActivity p po st msg ls) =
        Some \<lparr> ReminderActivity.timestamp = date_now p, status = st, ReminderActivity.message = msg \<rparr>)
   \<and> (int (date_now p) + 60 * 60 * 1000 \<le> int (date_now p') \<longrightarrow>
      getRecentReminderActivity p' po (trackReminderActivity p po st msg ls) = None
      \<and> map_of (trackReminderActivity p po st msg ls) (activity_key po) =
          Some (Activity \<lparr> ReminderActivity.timestamp = date_now p, status = st,
                            ReminderActivity.message = msg \<rparr>))"
  by (simp add: getRecentReminderActivity_def track_stores one_hour_def)

theorem activity_expires_after_one_hour_witness:
  "int (date_now half_hour_later) < int (date_now offline) + 60 * 60 * 1000
   \<and> getRecentReminderActivity half_hour_later ''PO-1''
         (trackReminderActivity offline ''PO-1'' Sent ''Reminder sent'' example_storage) =
       Some \<lparr> ReminderActivity.timestamp = 1700000000123, status = Sent,
              ReminderActivity.message = ''Reminder sent'' \<rparr>
   \<and> int (date_now offline) + 60 * 60 * 1000 \<le> int (date_now sixty_one_minutes_later)
   \<and> getRecentReminderActivity sixty_one_minutes_later ''PO-1''
         (trackReminderActivity offline ''PO-1'' Sent ''Reminder sent'' example_storage) = None
   \<and> map_of (trackReminderActivity offline ''PO-1'' Sent ''Reminder sent'' example_storage)
         (activity_key ''PO-1'') =
       Some (Activity \<lparr> ReminderActivity.timestamp = 1700000000123, status = Sent,
                         ReminderActivity.message = ''Reminder sent'' \<rparr>)"
  using activity_expires_after_one_hour
          [of half_hour_later offline "''PO-1''" Sent "''Reminder sent''" example_storage]
        activity_expires_after_one_hour
          [of sixty_one_minutes_later offline "''PO-1''" Sent "''Reminder sent''" example_storage]
  by (simp add: half_hour_later_def sixty_one_minutes_later_def offline_def)

subsection \<open>Line items\<close>

lemma to_number_value:
  "\<not> to_primitive_throws v \<Longrightarrow> to_number v = Inr (number_value v)"
  by (cases v) (auto simp: number_value_def)

lemma normalize_item_convertible:
  assumes "item_convertible item"
  shows "normalize_item item index =
     Inr \<lparr> description = js_or (js_get item ''description'') (JStr (''Item '' @ nat_to_string (index + 1))),
           qty = num_or (number_value (js_get item ''qty'')) (Fin 1),
           unit = js_or (js_get item ''unit'') (JStr ''Each''),
           unit_price = num_or (number_value (js_get item ''unit_price''))
                          (num_or (number_value (js_get item ''unitPrice'')) (Fin 0)),
           InvoiceItemData.total = num_or (number_value (js_get item ''total'')) (Fin 0) \<rparr>"
  using assms
  by (simp add: item_convertible_def normalize_item_def and_then_def js_get_checked_def
                to_number_value num_or_def)

lemma map_items_nth:
  "map_items xs index = Inr its \<Longrightarrow>
   length its = length xs \<and> (\<forall>j < length xs. normalize_item (xs ! j) (index + j) = Inr (its ! j))"
proof (induction xs arbitrary: index its)
  case Nil
  then show ?case by simp
next
  case (Cons x xs)
  from Cons.prems obtain y ys where
    y: "normalize_item x index = Inr y" and ys: "map_items xs (index + 1) = Inr ys" and its: "its = y # ys"
    by (auto simp: and_then_def split: sum.splits)
  from Cons.IH [OF ys] have len: "length ys = length xs"
    and nth: "\<And>j. j < length xs \<Longrightarrow> normalize_item (xs ! j) (index + 1 + j) = Inr (ys ! j)"
    by auto
  show ?case
  proof (intro conjI allI impI)
    show "length its = length (x # xs)" by (simp add: its len)
  next
    fix j assume "j < length (x # xs)"
    then show "normalize_item ((x # xs) ! j) (index + j) = Inr (its ! j)"
      using y nth [of "j - 1"] its by (cases j) auto
  qed
qed

lemma str_to_number_3: "str_to_number ''3'' = Fin 3"
  by code_simp

lemma str_to_number_10_5: "str_to_number ''10.5'' = Fin (21 / 2)"
  by code_simp

lemma str_to_number_0: "str_to_number ''0'' = Fin 0"
  by code_simp

lemma str_to_number_5: "str_to_number ''5'' = Fin 5"
  by code_simp

lemma str_to_number_abc: "str_to_number ''abc'' = NaN"
  by code_simp

text \<open>
  Claim C7. The callback of \<^verbatim>\<open>items.map\<close> converts \<^verbatim>\<open>{qty: "3", unit_price: "10.5"}\<close>
  to the quantity 3 and the unit price 10.5. On any item it can convert, a quantity
  that is missing, not numeric or zero becomes 1; the unit price is the number of
  \<^verbatim>\<open>unit_price\<close>, else that of \<^verbatim>\<open>unitPrice\<close>, else 0; and the total is the number of the
  item's own \<^verbatim>\<open>total\<close> field, else 0: it is a function of that field alone, never the
  product of quantity and price.
\<close>

theorem item_numeric_coercion:
  "normalize_item (JObj [(''qty'', JStr ''3''), (''unit_price'', JStr ''10.5'')]) index =
     Inr \<lparr> description = JStr (''Item '' @ nat_to_string (index + 1)), qty = Fin 3,
           unit = JStr ''Each'', unit_price = Fin (21 / 2), InvoiceItemData.total = Fin 0 \<rparr>
   \<and> (item_convertible item \<longrightarrow>
        (\<exists>it. normalize_item item index = Inr it
           \<and> qty it = (if number_value (js_get item ''qty'') = NaN \<or>
                          number_value (js_get item ''qty'') = Fin 0
                        then Fin 1 else number_value (js_get item ''qty''))
           \<and> unit_price it =
                 (if num_truthy (number_value (js_get item ''unit_price''))
                  then number_value (js_get item ''unit_price'')
                  else if num_truthy (number_value (js_get item ''unitPrice''))
                  then number_value (js_get item ''unitPrice'')
                  else Fin 0)
           \<and> InvoiceItemData.total it =
                 (if num_truthy (number_value (js_get item ''total''))
                  then number_value (js_get item ''total'') else Fin 0)
           \<and> (js_get item ''qty'' = JUndefined \<longrightarrow> qty it = Fin 1)
           \<and> (js_get item ''unit_price'' = JUndefined \<and> js_get item ''unitPrice'' = JUndefined
                \<longrightarrow> unit_price it = Fin 0)
           \<and> (js_get item ''total'' = JUndefined \<longrightarrow> InvoiceItemData.total it = Fin 0)))"
proof (intro conjI impI)
  show "normalize_item (JObj [(''qty'', JStr ''3''), (''unit_price'', JStr ''10.5'')]) index =
     Inr \<lparr> description = JStr (''Item '' @ nat_to_string (index + 1)), qty = Fin 3,
           unit = JStr ''Each'', unit_price = Fin (21 / 2), InvoiceItemData.total = Fin 0 \<rparr>"
    by (simp add: normalize_item_def and_then_def js_get_checked_def js_or_def num_or_def
                  str_to_number_3 str_to_number_10_5)
next
  assume c: "item_convertible item"
  let ?q = "number_value (js_get item ''qty'')"
  have q: "num_truthy ?q \<longleftrightarrow> \<not> (?q = NaN \<or> ?q = Fin 0)"
    by (cases ?q) auto
  show "\<exists>it. normalize_item item index = Inr it
           \<and> qty it = (if ?q = NaN \<or> ?q = Fin 0 then Fin 1 else ?q)
           \<and> unit_price it =
                 (if num_truthy (number_value (js_get item ''unit_price''))
                  then number_value (js_get item ''unit_price'')
                  else if num_truthy (number_value (js_get item ''unitPrice''))
                  then number_value (js_get item ''unitPrice'')
                  else Fin 0)
           \<and> InvoiceItemData.total it =
                 (if num_truthy (number_value (js_get item ''total''))
                  then number_value (js_get item ''total'') else Fin 0)
           \<and> (js_get item ''qty'' = JUndefined \<longrightarrow> qty it = Fin 1)
           \<and> (js_get item ''unit_price'' = JUndefined \<and> js_get item ''unitPrice'' = JUndefined
                \<longrightarrow> unit_price it = Fin 0)
           \<and> (js_get item ''total'' = JUndefined \<longrightarrow> InvoiceItemData.total it = Fin 0)"
    unfolding normalize_item_convertible [OF c]
    using q by (auto simp: num_or_def number_value_def)
qed

theorem item_numeric_coercion_witness:
  "item_convertible item_abc
   \<and> (\<exists>it. normalize_item item_abc 0 = Inr it \<and> qty it = Fin 1 \<and> unit_price it = Fin 4
            \<and> InvoiceItemData.total it = Fin 0)"
proof -
  have c: "item_convertible item_abc"
    by (simp add: item_convertible_def item_abc_def)
  have v: "number_value (js_get item_abc ''qty'') = NaN"
          "number_value (js_get item_abc ''unit_price'') = NaN"
          "number_value (js_get item_abc ''unitPrice'') = Fin 4"
          "number_value (js_get item_abc ''total'') = NaN"
    by (simp_all add: item_abc_def number_value_def str_to_number_abc)
  show ?thesis
    using item_numeric_coercion [of 0 item_abc] c v by auto
qed

lemma normalize_item_qty:
  "normalize_item item index = Inr it \<Longrightarrow>
   qty it = num_or (number_value (js_get item ''qty'')) (Fin 1)"
  by (auto simp: normalize_item_def and_then_def number_value_def split: sum.splits if_splits)

lemma build_invoice_parts:
  "build_invoice p actualData invoiceId = Inr out \<Longrightarrow>
   normalize_items (js_get actualData ''items'') = Inr (items out) \<and>
   normalize_summary actualData = Inr (summary out) \<and>
   invoice_id out = trim invoiceId"
  by (auto simp: build_invoice_def and_then_def split: sum.splits)

lemma normalizer_Some:
  "validateAndNormalizeInvoiceResponse p raw hint = Inr (Some out) \<Longrightarrow>
   \<exists>invoiceId. build_invoice p (unwrap raw possibleWrappers) invoiceId = Inr out"
  by (auto simp: validateAndNormalizeInvoiceResponse_def Let_def and_then_def
           split: if_splits option.splits sum.splits)

lemma response_zero_qty_normalized:
  "validateAndNormalizeInvoiceResponse offline response_zero_qty None =
     Inr (Some
       \<lparr> invoice_id = ''X1'', invoice_date = JStr ''2023-11-14'', due_date = JStr ''2023-12-14'',
         payment_terms = JStr ''Net 30'', shipping_method = JStr ''Standard'',
         bill_to = \<lparr> company = JStr ''Unknown Company'', contact = JStr ''Unknown Contact'',
                     address = JStr ''Unknown Address'', phone = JStr [], email = JStr [] \<rparr>,
         vendor = \<lparr> company = JStr ''Unknown Vendor'', contact = JStr ''Unknown Contact'',
                    address = JStr ''Unknown Address'', phone = JStr [], email = JStr [] \<rparr>,
         items = [\<lparr> description = JStr ''Item 1'', qty = Fin 1, unit = JStr ''Each'',
                    unit_price = Fin 4, InvoiceItemData.total = Fin 0 \<rparr>,
                  \<lparr> description = JStr ''Widget'', qty = Fin 1, unit = JStr ''Each'',
                    unit_price = Fin 5, InvoiceItemData.total = Fin 10 \<rparr>],
         summary = \<lparr> subtotal = Fin 0, discount = Fin 0, freight = Fin 0, tax = Fin 0,
                     InvoiceSummary.total = Fin 0 \<rparr>,
         notes = JStr [], payment_status = JStr ''Pending'' \<rparr>)"
  by (simp add: validateAndNormalizeInvoiceResponse_def response_zero_qty_def possibleWrappers_def
        invoiceId_candidate_def js_or_def trim_def is_space_def build_invoice_def and_then_def
        normalize_item_def js_get_checked_def num_or_def item_abc_def item_zero_def
        str_to_number_abc str_to_number_5 nat_to_string.simps digit_char_def
        normalize_summary_def summary_field_def js_get_opt_def
        normalize_bill_to_def normalize_vendor_def iso_date_def offline_def thirty_days_def)

text \<open>
  Claim C9. A line item whose \<^verbatim>\<open>qty\<close> is the number 0 or the text \<^verbatim>\<open>"0"\<close> is normalized
  to the quantity 1: the callback returns it so on every item it can convert, and every
  invoice the normalizer returns carries 1 at the position of such an item.
\<close>

theorem zero_qty_defaults_to_one:
  "(item_convertible item \<and>
      (js_get item ''qty'' = JNum (Fin 0) \<or> js_get item ''qty'' = JStr ''0'')
    \<longrightarrow> (\<exists>it. normalize_item item index = Inr it \<and> qty it = Fin 1))
   \<and> (validateAndNormalizeInvoiceResponse p raw hint = Inr (Some out) \<and>
        js_get (unwrap raw possibleWrappers) ''items'' = JArr xs \<and> j < length xs \<and>
        (js_get (xs ! j) ''qty'' = JNum (Fin 0) \<or> js_get (xs ! j) ''qty'' = JStr ''0'')
      \<longrightarrow> j < length (items out) \<and> qty (items out ! j) = Fin 1)"
proof (rule conjI; rule impI)
  assume a: "item_convertible item \<and>
      (js_get item ''qty'' = JNum (Fin 0) \<or> js_get item ''qty'' = JStr ''0'')"
  then have "number_value (js_get item ''qty'') = Fin 0"
    by (auto simp: number_value_def str_to_number_0)
  then show "\<exists>it. normalize_item item index = Inr it \<and> qty it = Fin 1"
    using a by (simp add: normalize_item_convertible num_or_def)
next
  assume a: "validateAndNormalizeInvoiceResponse p raw hint = Inr (Some out) \<and>
        js_get (unwrap raw possibleWrappers) ''items'' = JArr xs \<and> j < length xs \<and>
        (js_get (xs ! j) ''qty'' = JNum (Fin 0) \<or> js_get (xs ! j) ''qty'' = JStr ''0'')"
  then obtain invoiceId where "build_invoice p (unwrap raw possibleWrappers) invoiceId = Inr out"
    using normalizer_Some by blast
  then have "map_items xs 0 = Inr (items out)"
    using a build_invoice_parts by fastforce
  from map_items_nth [OF this] a
  have len: "length (items out) = length xs"
    and it: "normalize_item (xs ! j) j = Inr (items out ! j)"
    by auto
  have "number_value (js_get (xs ! j) ''qty'') = Fin 0"
    using a by (auto simp: number_value_def str_to_number_0)
  then have "qty (items out ! j) = Fin 1"
    using normalize_item_qty [OF it] by (simp add: num_or_def)
  then show "j < length (items out) \<and> qty (items out ! j) = Fin 1"
    using a len by simp
qed

theorem zero_qty_defaults_to_one_witness:
  "item_convertible item_zero
   \<and> js_get item_zero ''qty'' = JNum (Fin 0)
   \<and> (\<exists>it. normalize_item item_zero 1 = Inr it \<and> qty it = Fin 1)
   \<and> (\<exists>out. validateAndNormalizeInvoiceResponse offline response_zero_qty None = Inr (Some out)
          \<and> js_get (unwrap response_zero_qty possibleWrappers) ''items'' = JArr [item_abc, item_zero]
          \<and> (1::nat) < length [item_abc, item_zero]
          \<and> qty (items out ! 1) = Fin 1)"
proof -
  have c: "item_convertible item_zero \<and> js_get item_zero ''qty'' = JNum (Fin 0)"
    by (simp add: item_convertible_def item_zero_def)
  have u: "js_get (unwrap response_zero_qty possibleWrappers) ''items'' = JArr [item_abc, item_zero]"
    by (simp add: response_zero_qty_def possibleWrappers_def)
  have q: "js_get ([item_abc, item_zero] ! 1) ''qty'' = JNum (Fin 0)"
    by (simp add: item_zero_def)
  show ?thesis
    using zero_qty_defaults_to_one [of item_zero 1 offline response_zero_qty None _
            "[item_abc, item_zero]" 1]
          c u q response_zero_qty_normalized
    by simp
qed

subsection \<open>The normalizer\<close>

lemma map_items_convertible:
  "list_all item_convertible xs \<Longrightarrow> \<exists>its. map_items xs index = Inr its"
proof (induction xs arbitrary: index)
  case Nil
  then show ?case by simp
next
  case (Cons x xs)
  then obtain its where "map_items xs (index + 1) = Inr its" by fastforce
  with Cons.prems show ?case
    by (simp add: normalize_item_convertible and_then_def)
qed

lemma normalize_items_convertible:
  "response_convertible a \<Longrightarrow> \<exists>its. normalize_items (js_get a ''items'') = Inr its"
  by (cases "js_get a ''items''") (auto simp: response_convertible_def map_items_convertible)

lemma summary_field_convertible:
  "\<not> to_primitive_throws (js_get_opt (js_get a ''summary'') f) \<Longrightarrow>
   summary_field a f = Inr (num_or (number_value (js_get_opt (js_get a ''summary'') f)) (Fin 0))"
  by (simp add: summary_field_def to_number_value and_then_def)

lemma normalize_summary_convertible:
  "response_convertible a \<Longrightarrow> \<exists>sm. normalize_summary a = Inr sm"
  by (simp add: response_convertible_def summary_fields_def normalize_summary_def
                summary_field_convertible and_then_def)

lemma build_invoice_convertible:
  "response_convertible a \<Longrightarrow> \<exists>out. build_invoice p a invoiceId = Inr out"
  using normalize_items_convertible [of a] normalize_summary_convertible [of a]
  by (auto simp: build_invoice_def and_then_def)

lemma num_or_not_NaN: "d \<noteq> NaN \<Longrightarrow> num_or n d \<noteq> NaN"
  by (cases n) (auto simp: num_or_def)

lemma js_or_defined: "\<not> nullish b \<Longrightarrow> \<not> nullish (js_or a b)"
  by (cases a) (auto simp: js_or_def)

lemma js_or_string: "stringish a \<Longrightarrow> is_string b \<Longrightarrow> is_string (js_or a b)"
  by (auto simp: js_or_def stringish_def)

lemma normalize_item_defined:
  "normalize_item item index = Inr it \<Longrightarrow> item_defined it"
  by (auto simp: normalize_item_def and_then_def item_defined_def js_or_defined num_or_not_NaN
           split: sum.splits if_splits)

lemma map_items_defined:
  "map_items xs index = Inr its \<Longrightarrow> list_all item_defined its"
proof (induction xs arbitrary: index its)
  case Nil
  then show ?case by simp
next
  case (Cons x xs)
  then show ?case
    by (auto simp: and_then_def normalize_item_defined split: sum.splits)
qed

lemma normalize_items_defined:
  "normalize_items v = Inr its \<Longrightarrow>
   list_all item_defined its \<and> (case v of JArr xs \<Rightarrow> length its = length xs | _ \<Rightarrow> its = [])"
  using map_items_defined map_items_nth by (cases v) auto

lemma normalize_summary_numeric:
  "normalize_summary a = Inr sm \<Longrightarrow> summary_numeric sm"
  by (auto simp: normalize_summary_def summary_field_def and_then_def summary_numeric_def
                 num_or_not_NaN split: sum.splits)

lemma build_invoice_populated:
  assumes "build_invoice p a invoiceId = Inr out" "trim invoiceId \<noteq> []"
  shows "invoice_populated out"
proof -
  from assms(1) obtain its sm where
    its: "normalize_items (js_get a ''items'') = Inr its" and
    sm: "normalize_summary a = Inr sm" and
    out: "out = \<lparr> invoice_id = trim invoiceId,
             invoice_date = js_or (js_get a ''invoice_date'')
                (js_or (js_get a ''invoiceDate'') (JStr (iso_date p (date_now p)))),
             due_date = js_or (js_get a ''due_date'')
                (js_or (js_get a ''dueDate'') (JStr (iso_date p (date_now p + thirty_days)))),
             payment_terms = js_or (js_get a ''payment_terms'')
                (js_or (js_get a ''paymentTerms'') (JStr ''Net 30'')),
             shipping_method = js_or (js_get a ''shipping_method'')
                (js_or (js_get a ''shippingMethod'') (JStr ''Standard'')),
             bill_to = normalize_bill_to a,
             vendor = normalize_vendor a,
             items = its,
             summary = sm,
             notes = js_or (js_get a ''notes'') (JStr []),
             payment_status = js_or (js_get a ''payment_status'')
                (js_or (js_get a ''paymentStatus'') (JStr ''Pending'')) \<rparr>"
    by (auto simp: build_invoice_def and_then_def split: sum.splits)
  have "contact_defined (normalize_bill_to a)" "contact_defined (normalize_vendor a)"
    by (simp_all add: contact_defined_def normalize_bill_to_def normalize_vendor_def Let_def
                      js_or_defined)
  moreover have "list_all item_defined its"
    using normalize_items_defined [OF its] by simp
  moreover have "summary_numeric sm"
    using normalize_summary_numeric [OF sm] .
  ultimately show ?thesis
    using assms(2) by (simp add: out invoice_populated_def js_or_defined)
qed

lemma build_invoice_strings:
  assumes "build_invoice p a invoiceId = Inr out" "list_all stringish (text_candidates a)"
  shows "invoice_text_is_string out"
  using assms
  by (auto simp: build_invoice_def and_then_def invoice_text_is_string_def text_candidates_def
                 contact_fields_def contact_strings_def normalize_bill_to_def normalize_vendor_def
                 Let_def js_or_string split: sum.splits)

lemma all_dropWhile: "(\<forall>c \<in> set (dropWhile P s). P c) \<longleftrightarrow> (\<forall>c \<in> set s. P c)"
proof
  assume a: "\<forall>c \<in> set (dropWhile P s). P c"
  have "dropWhile P s = []"
  proof (rule ccontr)
    assume n: "dropWhile P s \<noteq> []"
    then have "\<not> P (hd (dropWhile P s))" by (rule hd_dropWhile)
    moreover have "hd (dropWhile P s) \<in> set (dropWhile P s)" using n by simp
    ultimately show False using a by blast
  qed
  then show "\<forall>c \<in> set s. P c" by (simp add: dropWhile_eq_Nil_conv)
next
  assume "\<forall>c \<in> set s. P c"
  then show "\<forall>c \<in> set (dropWhile P s). P c" by (auto dest: set_dropWhileD)
qed

lemma trim_eq_Nil: "trim s = [] \<longleftrightarrow> (\<forall>c \<in> set s. is_space c)"
  by (simp add: trim_def dropWhile_eq_Nil_conv all_dropWhile)

lemma trim_fallback_id: "trim (generateFallbackInvoiceId p po) \<noteq> []"
  by (simp add: trim_eq_Nil generateFallbackInvoiceId_def Let_def is_space_def)

lemma usable_id_nonblank: "usable_id v = Some s \<Longrightarrow> v = JStr s \<and> trim s \<noteq> []"
  by (cases v) (auto split: if_splits)

lemma digit_char_is_digit: "d < 10 \<Longrightarrow> is_digit (digit_char d)"
  unfolding digit_char_def is_digit_def
  by (auto simp: less_Suc_eq numeral_eq_Suc nth_Cons')

lemma nat_to_string_digits: "nat_to_string n \<noteq> [] \<and> list_all is_digit (nat_to_string n)"
proof (induction n rule: nat_to_string.induct)
  case (1 n)
  show ?case
  proof (cases "n < 10")
    case True
    then show ?thesis by (simp add: nat_to_string.simps [of n] digit_char_is_digit)
  next
    case False
    then show ?thesis using "1.IH" by (simp add: nat_to_string.simps [of n] digit_char_is_digit)
  qed
qed

lemma nat_to_string_length: "n < 1000 \<Longrightarrow> length (nat_to_string n) \<le> 3"
proof -
  assume n: "n < 1000"
  have one: "length (nat_to_string k) = 1" if "k < 10" for k
    using that by (simp add: nat_to_string.simps [of k])
  have two: "length (nat_to_string k) \<le> 2" if "k < 100" for k
    using that one [of "k div 10"] one [of k] by (cases "k < 10") (simp_all add: nat_to_string.simps [of k])
  show ?thesis
    using n two [of "n div 10"] one [of n] by (cases "n < 10") (simp_all add: nat_to_string.simps [of n])
qed

lemma is_digit_not_space: "is_digit c \<Longrightarrow> \<not> is_space c"
  by (auto simp: is_digit_def is_space_def)

lemma trim_id: "s \<noteq> [] \<Longrightarrow> \<not> is_space (hd s) \<Longrightarrow> \<not> is_space (last s) \<Longrightarrow> trim s = s"
proof -
  assume s: "s \<noteq> []" and h: "\<not> is_space (hd s)" and l: "\<not> is_space (last s)"
  have 1: "dropWhile is_space s = s" using s h by (cases s) auto
  have 2: "dropWhile is_space (rev s) = rev s" using s l by (cases "rev s") (auto simp: last_rev hd_rev)
  show ?thesis by (simp add: trim_def 1 2)
qed

text \<open>
  The binary64 product of a draw and 1000 stays below 1000: a binary64 value below 1
  is at most \<open>1 - 2\<^sup>-\<^sup>5\<^sup>3\<close>, and rounding moves the product by at most \<open>2\<^sup>-\<^sup>4\<^sup>4\<close>.
\<close>

lemma pow2_powi: "pow2 e = 2 powi e"
  unfolding pow2_def power_int_def by (simp add: inverse_eq_divide power_one_over)

lemma pow2_pos: "0 < pow2 e"
  by (simp add: pow2_powi)

lemma pow2_mono: "a \<le> b \<Longrightarrow> pow2 a \<le> pow2 b"
  by (simp add: pow2_powi power_int_increasing)

lemma pow2_less_imp: "pow2 a < pow2 b \<Longrightarrow> a < b"
  using pow2_mono [of b a] by (cases "a < b") auto

lemma floor_log2_le:
  assumes "0 < x"
  shows "pow2 (floor_log2 x) \<le> x"
proof -
  obtain p q where pq: "quotient_of x = (p, q)" by (cases "quotient_of x")
  then have q: "0 < q" and x: "x = of_int p / of_int q"
    by (auto simp: quotient_of_denom_pos quotient_of_div)
  with assms have p: "0 < p" by (simp add: zero_less_divide_iff)
  let ?d = "bitlen p - bitlen q"
  show ?thesis
  proof (cases "pow2 ?d \<le> x")
    case True
    then show ?thesis by (simp add: floor_log2_def pq)
  next
    case False
    have bp: "2 ^ nat (bitlen p - 1) \<le> p" and bq: "q < 2 ^ nat (bitlen q)"
      using bitlen_bounds [OF p] bitlen_bounds [OF q] by auto
    have p1: "1 \<le> bitlen p" using p by (simp add: bitlen_alt_def)
    have q0: "0 \<le> bitlen q" by (rule bitlen_nonneg)
    have "pow2 (?d - 1) = 2 powi (bitlen p - 1) / 2 powi (bitlen q)"
      by (simp add: pow2_powi power_int_diff)
    also have "\<dots> = of_int (2 ^ nat (bitlen p - 1)) / of_int (2 ^ nat (bitlen q))"
      using p1 q0 by (simp add: power_int_def)
    also have "\<dots> \<le> of_int p / of_int (2 ^ nat (bitlen q))"
      using bp by (intro divide_right_mono) (simp_all only: of_int_le_iff, simp)
    also have "\<dots> \<le> of_int p / of_int q"
      using bq q p by (intro divide_left_mono) (simp_all add: less_imp_le)
    finally have "pow2 (?d - 1) \<le> x" by (simp add: x)
    moreover have "floor_log2 x = ?d - 1" using False by (simp add: floor_log2_def pq)
    ultimately show ?thesis by simp
  qed
qed

lemma round_half_even_le: "of_int (round_half_even y) \<le> y + 1 / 2"
proof -
  let ?n = "\<lfloor>y\<rfloor>"
  have f: "of_int ?n \<le> y" by linarith
  show ?thesis
  proof (cases "y - of_int ?n < 1 / 2")
    case True
    then have "round_half_even y = ?n" by (simp add: round_half_even_def Let_def)
    then show ?thesis using f by linarith
  next
    case False
    then have "round_half_even y = ?n \<or> round_half_even y = ?n + 1"
      by (simp add: round_half_even_def Let_def)
    then show ?thesis
    proof
      assume "round_half_even y = ?n"
      then show ?thesis using f by linarith
    next
      assume "round_half_even y = ?n + 1"
      then show ?thesis using False by simp
    qed
  qed
qed

lemma floor_log2_less:
  assumes "0 < x"
  shows "x < pow2 (floor_log2 x + 1)"
proof -
  obtain p q where pq: "quotient_of x = (p, q)" by (cases "quotient_of x")
  then have q: "0 < q" and x: "x = of_int p / of_int q"
    by (auto simp: quotient_of_denom_pos quotient_of_div)
  with assms have p: "0 < p" by (simp add: zero_less_divide_iff)
  let ?d = "bitlen p - bitlen q"
  show ?thesis
  proof (cases "pow2 ?d \<le> x")
    case False
    then have "floor_log2 x = ?d - 1" by (simp add: floor_log2_def pq)
    then show ?thesis using False by simp
  next
    case True
    have bp: "p < 2 ^ nat (bitlen p)" and bq: "2 ^ nat (bitlen q - 1) \<le> q"
      using bitlen_bounds [OF p] bitlen_bounds [OF q] by auto
    have p0: "0 \<le> bitlen p" by (rule bitlen_nonneg)
    have q1: "1 \<le> bitlen q" using q by (simp add: bitlen_alt_def)
    have "of_int p / of_int q \<le> (of_int p :: rat) / of_int (2 ^ nat (bitlen q - 1))"
      using bq q p by (intro divide_left_mono) (simp_all add: less_imp_le)
    also have "\<dots> < of_int (2 ^ nat (bitlen p)) / of_int (2 ^ nat (bitlen q - 1))"
      using bp by (intro divide_strict_right_mono) (simp_all only: of_int_less_iff, simp)
    also have "\<dots> = 2 powi (bitlen p) / 2 powi (bitlen q - 1)"
      using p0 q1 by (simp add: power_int_def)
    also have "\<dots> = 2 powi (bitlen p - (bitlen q - 1))"
      by (rule power_int_diff [symmetric]) simp
    also have "bitlen p - (bitlen q - 1) = ?d + 1" by simp
    also have "2 powi (?d + 1) = pow2 (?d + 1)" by (simp only: pow2_powi)
    finally have "x < pow2 (?d + 1)" by (simp add: x)
    moreover have "floor_log2 x = ?d" using True by (simp add: floor_log2_def pq)
    ultimately show ?thesis by simp
  qed
qed

lemma round_half_even_nonneg: "0 \<le> y \<Longrightarrow> 0 \<le> round_half_even y"
  by (simp add: round_half_even_def Let_def)

lemma pow2_add: "pow2 (a + b) = pow2 a * pow2 b"
  by (simp add: pow2_powi power_int_add)

lemma round_binary64_below:
  assumes "0 \<le> x" "x < 1024"
  shows "\<exists>m. round_binary64 x = Fin m \<and> 0 \<le> m \<and> m \<le> x + 1 / 2 ^ 44"
proof (cases "x = 0")
  case True
  then show ?thesis by (simp add: round_binary64_def)
next
  case False
  with assms have x: "0 < x" by simp
  define e where "e = max (floor_log2 x) (- 1022)"
  define n where "n = round_half_even (x / pow2 (e - 52))"
  have "pow2 (floor_log2 x) < pow2 10"
    using floor_log2_le [OF x] assms(2) by (simp add: pow2_def)
  then have "floor_log2 x < 10" by (rule pow2_less_imp)
  then have e: "e \<le> 9" by (simp add: e_def)
  have rb: "round_binary64 x = Fin (of_int n * pow2 (e - 52))"
    using x e by (simp add: round_binary64_def Let_def e_def [symmetric] n_def [symmetric])
  have n0: "0 \<le> n" unfolding n_def
    using x pow2_pos [of "e - 52"] by (intro round_half_even_nonneg) simp
  have "of_int n \<le> x / pow2 (e - 52) + 1 / 2" unfolding n_def by (rule round_half_even_le)
  then have "of_int n * pow2 (e - 52) \<le> (x / pow2 (e - 52) + 1 / 2) * pow2 (e - 52)"
    using pow2_pos [of "e - 52"] by (intro mult_right_mono) simp_all
  also have "\<dots> = x + pow2 (e - 52) / 2"
    using pow2_pos [of "e - 52"] by (simp add: field_simps)
  also have "pow2 (e - 52) \<le> pow2 (- 43)" using e by (intro pow2_mono) simp
  finally have "of_int n * pow2 (e - 52) \<le> x + pow2 (- 43) / 2" by simp
  then have "of_int n * pow2 (e - 52) \<le> x + 1 / 2 ^ 44" by (simp add: pow2_def)
  moreover have "0 \<le> of_int n * pow2 (e - 52)"
    using n0 pow2_pos [of "e - 52"] by simp
  ultimately show ?thesis using rb by simp
qed

lemma binary64_below_one:
  assumes "is_binary64 r" "0 \<le> r" "r < 1"
  shows "r \<le> 1 - 1 / 2 ^ 53"
proof (cases "r = 0")
  case True
  then show ?thesis by simp
next
  case False
  with assms have r: "0 < r" by simp
  define e where "e = max (floor_log2 r) (- 1022)"
  define n where "n = round_half_even (r / pow2 (e - 52))"
  have "pow2 (floor_log2 r) < pow2 0"
    using floor_log2_le [OF r] assms(3) by (simp add: pow2_def)
  then have fl: "floor_log2 r < 0" by (rule pow2_less_imp)
  then have e: "e \<le> - 1" by (simp add: e_def)
  have "round_binary64 r = Fin (of_int n * pow2 (e - 52))"
    using r e by (simp add: round_binary64_def Let_def e_def [symmetric] n_def [symmetric])
  with assms(1) have req: "r = of_int n * pow2 (e - 52)" by (simp add: is_binary64_def)
  show ?thesis
  proof (cases "e = - 1")
    case True
    then have r53: "r = of_int n / 2 ^ 53" using req by (simp add: pow2_def)
    with assms(3) have "(of_int n :: rat) < 2 ^ 53" by simp
    then have "(of_int n :: rat) < of_int (2 ^ 53)" by simp
    then have "n < 2 ^ 53" by (simp only: of_int_less_iff)
    then have "n \<le> 2 ^ 53 - 1" by simp
    then have "(of_int n :: rat) \<le> of_int (2 ^ 53 - 1)" by (simp only: of_int_le_iff)
    then show ?thesis by (simp add: r53 field_simps)
  next
    case False
    with e have "e \<le> - 2" by simp
    then have "floor_log2 r + 1 \<le> - 1" by (simp add: e_def)
    then have "pow2 (floor_log2 r + 1) \<le> pow2 (- 1)" by (rule pow2_mono)
    with floor_log2_less [OF r] have "r < 1 / 2" by (simp add: pow2_def)
    then show ?thesis by simp
  qed
qed

lemma binary64_draw_times_1000:
  assumes "is_binary64 r" "0 \<le> r" "r < 1"
  shows "\<exists>m. round_binary64 (r * 1000) = Fin m \<and> 0 \<le> m \<and> m < 1000"
proof -
  have b: "r \<le> 1 - 1 / 2 ^ 53" using assms by (rule binary64_below_one)
  have "0 \<le> r * 1000" "r * 1000 < 1024" using assms by simp_all
  then obtain m where m: "round_binary64 (r * 1000) = Fin m" "0 \<le> m" "m \<le> r * 1000 + 1 / 2 ^ 44"
    using round_binary64_below by blast
  have "r * 1000 + 1 / 2 ^ 44 \<le> (1 - 1 / 2 ^ 53) * 1000 + 1 / 2 ^ 44" using b by simp
  also have "\<dots> < 1000" by simp
  finally have "m < 1000" using m(3) by simp
  with m show ?thesis by blast
qed

text \<open>
  The rounding matters: at the binary64 value nearest to 0.119 the exact product floors
  to 118 and the rounded one to 119; and a rational below 1 that is not a binary64
  value can have a product that rounds to 1000.
\<close>

lemma binary64_product_example:
  "is_binary64 (535928355657089 / 4503599627370496) \<and>
   Math_floor (round_binary64 (535928355657089 / 4503599627370496 * 1000)) = Fin 119 \<and>
   \<lfloor>(535928355657089 / 4503599627370496 :: rat) * 1000\<rfloor> = 118"
  by code_simp

lemma product_of_other_rationals:
  "\<not> is_binary64 (1 - 1 / 2 ^ 60) \<and> round_binary64 ((1 - 1 / 2 ^ 60) * 1000) = Fin 1000"
  by code_simp

lemma random_suffix:
  assumes "is_binary64 (math_random p)" "0 \<le> math_random p" "math_random p < 1"
  shows "length (padStart 3 (CHR ''0'')
                   (integer_toString p (Math_floor (round_binary64 (math_random p * 1000))))) = 3 \<and>
         list_all is_digit (padStart 3 (CHR ''0'')
                   (integer_toString p (Math_floor (round_binary64 (math_random p * 1000)))))"
proof -
  from binary64_draw_times_1000 [OF assms] obtain m where
    m: "round_binary64 (math_random p * 1000) = Fin m" "0 \<le> m" "m < 1000"
    by blast
  let ?n = "nat \<lfloor>m\<rfloor>"
  have f0: "0 \<le> \<lfloor>m\<rfloor>" using m(2) by simp
  have f1: "\<lfloor>m\<rfloor> < 1000" using m(3) by (simp add: floor_less_iff)
  have "(of_int \<lfloor>m\<rfloor> :: rat) < of_int 1000" using f1 by (simp only: of_int_less_iff)
  then have "(of_int \<lfloor>m\<rfloor> :: rat) < 10 ^ 21" by simp
  then have s: "integer_toString p (Math_floor (round_binary64 (math_random p * 1000))) = nat_to_string ?n"
    using f0 by (simp add: m(1) Math_floor_def integer_toString_def)
  have "?n < 1000" using f1 by linarith
  then have "length (nat_to_string ?n) \<le> 3" by (rule nat_to_string_length)
  moreover have "is_digit (CHR ''0'')" by (simp add: is_digit_def)
  ultimately show ?thesis
    unfolding s using nat_to_string_digits [of ?n] by (auto simp: padStart_def list_all_iff)
qed

lemma fallback_id_shape:
  assumes "is_binary64 (math_random p)" "0 \<le> math_random p" "math_random p < 1"
  shows "fallback_id_pattern po (generateFallbackInvoiceId p po)"
    and "trim (generateFallbackInvoiceId p po) = generateFallbackInvoiceId p po"
proof -
  let ?rnd = "padStart 3 (CHR ''0'')
                (integer_toString p (Math_floor (round_binary64 (math_random p * 1000))))"
  let ?ts = "nat_to_string (date_now p)"
  have id: "generateFallbackInvoiceId p po = (''INV-'' @ po @ ''-'') @ ?ts @ ''-'' @ ?rnd"
    by (simp add: generateFallbackInvoiceId_def Let_def)
  from random_suffix [OF assms] have r: "length ?rnd = 3" "list_all is_digit ?rnd" by simp_all
  have ts: "?ts \<noteq> []" "list_all is_digit ?ts" using nat_to_string_digits [of "date_now p"] by simp_all
  have len: "length (?ts @ ''-'' @ ?rnd) - 4 = length ?ts" using r by simp
  have "1 \<le> length ?ts" using ts(1) by (cases ?ts) auto
  then have five: "5 \<le> length (?ts @ ''-'' @ ?rnd)" using r by simp
  show "fallback_id_pattern po (generateFallbackInvoiceId p po)"
    unfolding fallback_id_pattern_def id Let_def
    using ts r five by (simp add: len)
  have "?rnd \<noteq> []" using r by auto
  moreover have "is_digit (last ?rnd)" using r \<open>?rnd \<noteq> []\<close> by (simp add: list_all_iff)
  ultimately have "\<not> is_space (last (generateFallbackInvoiceId p po))"
    by (simp add: id is_digit_not_space)
  moreover have "\<not> is_space (hd (generateFallbackInvoiceId p po))"
    by (simp add: id is_space_def)
  ultimately show "trim (generateFallbackInvoiceId p po) = generateFallbackInvoiceId p po"
    by (intro trim_id) (simp_all add: id)
qed

lemma normalizer_null_iff:
  "validateAndNormalizeInvoiceResponse p raw hint = Inr None \<longleftrightarrow>
     (\<not> truthy raw \<or> typeof raw \<noteq> ''object'' \<or>
      (resolved_invoice_id (unwrap raw possibleWrappers) = None \<and> (hint = None \<or> hint = Some [])))"
  by (auto simp: validateAndNormalizeInvoiceResponse_def Let_def and_then_def resolved_invoice_id_def
           split: option.splits sum.splits)

lemma normalizer_resolved:
  assumes "truthy raw" "typeof raw = ''object''"
      and "usable_id (invoiceId_candidate (unwrap raw possibleWrappers)) = Some s"
      and "response_convertible (unwrap raw possibleWrappers)"
  shows "\<exists>out. validateAndNormalizeInvoiceResponse p raw hint = Inr (Some out) \<and>
               build_invoice p (unwrap raw possibleWrappers) s = Inr out"
  using assms build_invoice_convertible [OF assms(4), of p s]
  by (auto simp: validateAndNormalizeInvoiceResponse_def Let_def and_then_def)

lemma normalizer_fallback:
  assumes "truthy raw" "typeof raw = ''object''"
      and "usable_id (invoiceId_candidate (unwrap raw possibleWrappers)) = None"
      and "po \<noteq> []"
      and "response_convertible (unwrap raw possibleWrappers)"
  shows "\<exists>out. validateAndNormalizeInvoiceResponse p raw (Some po) = Inr (Some out) \<and>
               build_invoice p (unwrap raw possibleWrappers) (generateFallbackInvoiceId p po) = Inr out"
  using assms build_invoice_convertible [OF assms(5), of p "generateFallbackInvoiceId p po"]
  by (auto simp: validateAndNormalizeInvoiceResponse_def Let_def and_then_def)

lemma fallback_identifier:
  assumes "truthy raw" "typeof raw = ''object''"
      and "resolved_invoice_id (unwrap raw possibleWrappers) = None"
      and "po \<noteq> []"
      and "is_binary64 (math_random p)" "0 \<le> math_random p" "math_random p < 1"
      and "response_convertible (unwrap raw possibleWrappers)"
  shows "\<exists>out. validateAndNormalizeInvoiceResponse p raw (Some po) = Inr (Some out) \<and>
               invoice_id out = generateFallbackInvoiceId p po \<and>
               fallback_id_pattern po (invoice_id out)"
proof -
  from assms(3) have "usable_id (invoiceId_candidate (unwrap raw possibleWrappers)) = None"
    by (simp add: resolved_invoice_id_def)
  from normalizer_fallback [OF assms(1,2) this assms(4,8), of p] obtain out where
    out: "validateAndNormalizeInvoiceResponse p raw (Some po) = Inr (Some out)"
         "build_invoice p (unwrap raw possibleWrappers) (generateFallbackInvoiceId p po) = Inr out"
    by blast
  then have "invoice_id out = trim (generateFallbackInvoiceId p po)"
    using build_invoice_parts by blast
  then show ?thesis
    using out(1) fallback_id_shape [OF assms(5,6,7), of po] by simp
qed

lemma resolved_first_truthy:
  "resolved_invoice_id a =
     (case find truthy (map (js_get a) identifier_keys) of
        Some v \<Rightarrow> map_option trim (usable_id v)
      | None \<Rightarrow> None)"
proof -
  have falsy: "usable_id v = None" if "\<not> truthy v" for v
    using that by (cases v) auto
  show ?thesis
    by (simp add: resolved_invoice_id_def invoiceId_candidate_def identifier_keys_def js_or_def falsy)
qed

lemma clean_resolution:
  "list_all clean_identifier (map (js_get a) ks) \<Longrightarrow>
   (case find truthy (map (js_get a) ks) of
      Some v \<Rightarrow> map_option trim (usable_id v) | None \<Rightarrow> None) = spec_first_nonblank a ks"
proof (induction ks)
  case Nil
  then show ?case by simp
next
  case (Cons k ks)
  then show ?case
    by (cases "js_get a k") (auto simp: clean_identifier_def trim_eq_Nil)
qed

text \<open>
  Claim C2, as amended. The normalizer takes the first truthy value among
  \<^verbatim>\<open>invoice_id\<close>, \<^verbatim>\<open>invoiceId\<close>, \<^verbatim>\<open>id\<close>, \<^verbatim>\<open>invoice_number\<close>, in that order; when that value
  is a string that is not blank, the invoice of a convertible response carries its
  trimmed text as \<^verbatim>\<open>invoice_id\<close>, and otherwise no identifier resolves. This is the
  first non-blank string of the four whenever each of the four values is falsy or a
  non-blank string.
\<close>

theorem identifier_is_first_truthy_value:
  "resolved_invoice_id a =
     (case find truthy (map (js_get a) identifier_keys) of
        Some v \<Rightarrow> map_option trim (usable_id v)
      | None \<Rightarrow> None)
   \<and> (truthy raw \<and> typeof raw = ''object'' \<and> response_convertible (unwrap raw possibleWrappers) \<and>
        resolved_invoice_id (unwrap raw possibleWrappers) = Some t
      \<longrightarrow> (\<exists>out. validateAndNormalizeInvoiceResponse p raw hint = Inr (Some out) \<and> invoice_id out = t))
   \<and> (list_all clean_identifier (map (js_get a) identifier_keys)
      \<longrightarrow> resolved_invoice_id a = spec_first_nonblank a identifier_keys)"
proof (intro conjI)
  show "resolved_invoice_id a =
     (case find truthy (map (js_get a) identifier_keys) of
        Some v \<Rightarrow> map_option trim (usable_id v)
      | None \<Rightarrow> None)"
    by (rule resolved_first_truthy)
next
  show "truthy raw \<and> typeof raw = ''object'' \<and> response_convertible (unwrap raw possibleWrappers) \<and>
        resolved_invoice_id (unwrap raw possibleWrappers) = Some t
      \<longrightarrow> (\<exists>out. validateAndNormalizeInvoiceResponse p raw hint = Inr (Some out) \<and> invoice_id out = t)"
  proof
    assume a: "truthy raw \<and> typeof raw = ''object'' \<and> response_convertible (unwrap raw possibleWrappers) \<and>
        resolved_invoice_id (unwrap raw possibleWrappers) = Some t"
    then obtain s where s: "usable_id (invoiceId_candidate (unwrap raw possibleWrappers)) = Some s"
      and t: "t = trim s"
      by (auto simp: resolved_invoice_id_def)
    from a s obtain out where
      "validateAndNormalizeInvoiceResponse p raw hint = Inr (Some out)"
      "build_invoice p (unwrap raw possibleWrappers) s = Inr out"
      using normalizer_resolved [of raw s p hint] by blast
    then show "\<exists>out. validateAndNormalizeInvoiceResponse p raw hint = Inr (Some out) \<and> invoice_id out = t"
      using build_invoice_parts t by blast
  qed
next
  show "list_all clean_identifier (map (js_get a) identifier_keys)
      \<longrightarrow> resolved_invoice_id a = spec_first_nonblank a identifier_keys"
    using clean_resolution [of a identifier_keys] by (simp add: resolved_first_truthy)
qed

lemma missing_then_id_convertible:
  "truthy missing_then_id \<and> typeof missing_then_id = ''object'' \<and>
   response_convertible (unwrap missing_then_id possibleWrappers)"
  by (simp add: missing_then_id_def possibleWrappers_def response_convertible_def summary_fields_def
                js_get_opt_def)

theorem identifier_is_first_truthy_value_witness:
  "truthy missing_then_id \<and> typeof missing_then_id = ''object''
   \<and> response_convertible (unwrap missing_then_id possibleWrappers)
   \<and> resolved_invoice_id (unwrap missing_then_id possibleWrappers) = Some ''X1''
   \<and> list_all clean_identifier (map (js_get missing_then_id) identifier_keys)
   \<and> spec_first_nonblank missing_then_id identifier_keys = Some ''X1''
   \<and> (\<exists>out. validateAndNormalizeInvoiceResponse offline missing_then_id None = Inr (Some out)
          \<and> invoice_id out = ''X1'')"
proof -
  have u: "unwrap missing_then_id possibleWrappers = missing_then_id"
    by (simp add: missing_then_id_def possibleWrappers_def)
  have r: "resolved_invoice_id missing_then_id = Some ''X1''"
    by (simp add: resolved_invoice_id_def invoiceId_candidate_def missing_then_id_def js_or_def
                  trim_def is_space_def)
  have c: "list_all clean_identifier (map (js_get missing_then_id) identifier_keys)"
    by (simp add: identifier_keys_def missing_then_id_def clean_identifier_def trim_def is_space_def)
  note T = identifier_is_first_truthy_value [of missing_then_id missing_then_id "''X1''" offline None]
  have "\<exists>out. validateAndNormalizeInvoiceResponse offline missing_then_id None = Inr (Some out)
          \<and> invoice_id out = ''X1''"
    using T [THEN conjunct2, THEN conjunct1] missing_then_id_convertible u r by simp
  moreover have "spec_first_nonblank missing_then_id identifier_keys = Some ''X1''"
    using T [THEN conjunct2, THEN conjunct2] c r by simp
  ultimately show ?thesis
    using missing_then_id_convertible u r c by simp
qed

lemma offline_fallback_id: "generateFallbackInvoiceId offline ''PO-9'' = ''INV-PO-9-1700000000123-007''"
proof -
  have ts: "nat_to_string 1700000000123 = ''1700000000123''"
    by (simp add: nat_to_string.simps digit_char_def)
  have draw: "math_random offline = 8070450532247929 / 1152921504606846976"
    and now: "date_now offline = 1700000000123"
    by (simp_all add: offline_def)
  have prod: "round_binary64 (math_random offline * 1000) = Fin 7"
    unfolding draw by code_simp
  have digits: "integer_toString offline (Math_floor (Fin 7)) = nat_to_string 7"
    by (simp add: integer_toString_def Math_floor_def)
  have rnd: "padStart 3 (CHR ''0'') (nat_to_string 7) = ''007''"
    by (simp add: padStart_def nat_to_string.simps digit_char_def numeral_2_eq_2)
  show ?thesis
    by (simp add: generateFallbackInvoiceId_def prod digits now ts rnd)
qed

lemma normalized_id_fallback:
  assumes "truthy raw" "typeof raw = ''object''"
      and "usable_id (invoiceId_candidate (unwrap raw possibleWrappers)) = None"
      and "response_convertible (unwrap raw possibleWrappers)"
  shows "normalized_id offline raw (Some ''PO-9'') = Some ''INV-PO-9-1700000000123-007''"
proof -
  from normalizer_fallback [OF assms(1-3) _ assms(4), of "''PO-9''" offline] obtain out where
    out: "validateAndNormalizeInvoiceResponse offline raw (Some ''PO-9'') = Inr (Some out)"
         "build_invoice offline (unwrap raw possibleWrappers) (generateFallbackInvoiceId offline ''PO-9'') = Inr out"
    by auto
  have "trim ''INV-PO-9-1700000000123-007'' = ''INV-PO-9-1700000000123-007''"
    by (simp add: trim_def is_space_def)
  then have "invoice_id out = ''INV-PO-9-1700000000123-007''"
    using build_invoice_parts [OF out(2)] by (simp add: offline_fallback_id)
  then show ?thesis by (simp add: normalized_id_def out(1))
qed

text \<open>
  The first non-blank string is not what the normalizer takes when an earlier key holds
  a blank string or a number: without a hint the result is \<^verbatim>\<open>null\<close>, and with the hint
  \<^verbatim>\<open>PO-9\<close> the identifier is synthesized.
\<close>

theorem first_nonblank_string_counterexample:
  "spec_first_nonblank (unwrap blank_then_id possibleWrappers) identifier_keys = Some ''ABC''
   \<and> validateAndNormalizeInvoiceResponse offline blank_then_id None = Inr None
   \<and> normalized_id offline blank_then_id (Some ''PO-9'') = Some ''INV-PO-9-1700000000123-007''
   \<and> spec_first_nonblank (unwrap number_then_id possibleWrappers) identifier_keys = Some ''ABC''
   \<and> validateAndNormalizeInvoiceResponse offline number_then_id None = Inr None
   \<and> normalized_id offline number_then_id (Some ''PO-9'') = Some ''INV-PO-9-1700000000123-007''"
proof -
  have "normalized_id offline blank_then_id (Some ''PO-9'') = Some ''INV-PO-9-1700000000123-007''"
    by (rule normalized_id_fallback)
       (simp_all add: blank_then_id_def possibleWrappers_def invoiceId_candidate_def js_or_def
                      trim_def is_space_def response_convertible_def summary_fields_def js_get_opt_def)
  moreover
  have "normalized_id offline number_then_id (Some ''PO-9'') = Some ''INV-PO-9-1700000000123-007''"
    by (rule normalized_id_fallback)
       (simp_all add: number_then_id_def possibleWrappers_def invoiceId_candidate_def js_or_def
                      response_convertible_def summary_fields_def js_get_opt_def)
  ultimately show ?thesis
    by (simp add: blank_then_id_def number_then_id_def possibleWrappers_def identifier_keys_def
                  validateAndNormalizeInvoiceResponse_def invoiceId_candidate_def js_or_def
                  trim_def is_space_def)
qed

text \<open>
  Claim C1, as amended. For every response that is an object, from which an identifier
  resolves or for which a non-empty hint is supplied, and on which building the invoice
  does not throw, the normalizer returns an invoice in which nothing is undefined or
  null: \<^verbatim>\<open>invoice_id\<close> is a non-empty string; the six text fields and the five fields of
  each contact are defined; \<^verbatim>\<open>items\<close> has one element for each element of an upstream
  array and is empty when the upstream field is not an array, and each element has its
  description and unit defined and its three numbers not NaN; the five summary fields
  are numbers other than NaN. The text fields and contact fields are strings provided
  every value the response offers for them is a string or falsy.
\<close>

theorem normalizer_populates_every_field:
  "truthy raw \<and> typeof raw = ''object'' \<and>
   (resolved_invoice_id (unwrap raw possibleWrappers) \<noteq> None \<or> (\<exists>po. hint = Some po \<and> po \<noteq> [])) \<and>
   response_convertible (unwrap raw possibleWrappers)
   \<longrightarrow> (\<exists>out. validateAndNormalizeInvoiceResponse p raw hint = Inr (Some out)
          \<and> invoice_populated out
          \<and> (case js_get (unwrap raw possibleWrappers) ''items'' of
                JArr xs \<Rightarrow> length (items out) = length xs
              | _ \<Rightarrow> items out = [])
          \<and> (list_all stringish (text_candidates (unwrap raw possibleWrappers))
               \<longrightarrow> invoice_text_is_string out))"
proof
  let ?a = "unwrap raw possibleWrappers"
  assume h: "truthy raw \<and> typeof raw = ''object'' \<and>
   (resolved_invoice_id ?a \<noteq> None \<or> (\<exists>po. hint = Some po \<and> po \<noteq> [])) \<and>
   response_convertible ?a"
  have "\<exists>out invoiceId. validateAndNormalizeInvoiceResponse p raw hint = Inr (Some out) \<and>
          build_invoice p ?a invoiceId = Inr out \<and> trim invoiceId \<noteq> []"
  proof (cases "usable_id (invoiceId_candidate ?a)")
    case (Some s)
    then have "trim s \<noteq> []" using usable_id_nonblank by blast
    then show ?thesis using normalizer_resolved [of raw s p hint] h Some by blast
  next
    case None
    then obtain po where po: "hint = Some po" "po \<noteq> []"
      using h by (auto simp: resolved_invoice_id_def)
    show ?thesis
      using normalizer_fallback [of raw po p] h None po trim_fallback_id [of p po] by blast
  qed
  then obtain out invoiceId where
    out: "validateAndNormalizeInvoiceResponse p raw hint = Inr (Some out)" and
    b: "build_invoice p ?a invoiceId = Inr out" and t: "trim invoiceId \<noteq> []"
    by blast
  have "invoice_populated out"
    using build_invoice_populated [OF b t] .
  moreover have "case js_get ?a ''items'' of JArr xs \<Rightarrow> length (items out) = length xs
                 | _ \<Rightarrow> items out = []"
    using normalize_items_defined [of "js_get ?a ''items''" "items out"] build_invoice_parts [OF b]
    by simp
  moreover have "list_all stringish (text_candidates ?a) \<longrightarrow> invoice_text_is_string out"
    using build_invoice_strings [OF b] by blast
  ultimately show "\<exists>out. validateAndNormalizeInvoiceResponse p raw hint = Inr (Some out)
          \<and> invoice_populated out
          \<and> (case js_get ?a ''items'' of
                JArr xs \<Rightarrow> length (items out) = length xs
              | _ \<Rightarrow> items out = [])
          \<and> (list_all stringish (text_candidates ?a) \<longrightarrow> invoice_text_is_string out)"
    using out by blast
qed

lemma response_zero_qty_facts:
  "truthy response_zero_qty \<and> typeof response_zero_qty = ''object'' \<and>
   resolved_invoice_id (unwrap response_zero_qty possibleWrappers) = Some ''X1'' \<and>
   response_convertible (unwrap response_zero_qty possibleWrappers) \<and>
   js_get (unwrap response_zero_qty possibleWrappers) ''items'' = JArr [item_abc, item_zero] \<and>
   list_all stringish (text_candidates (unwrap response_zero_qty possibleWrappers))"
  by (simp add: response_zero_qty_def possibleWrappers_def resolved_invoice_id_def
        invoiceId_candidate_def js_or_def trim_def is_space_def response_convertible_def
        summary_fields_def js_get_opt_def item_convertible_def item_abc_def item_zero_def
        text_candidates_def contact_fields_def stringish_def)

theorem normalizer_populates_every_field_witness:
  "truthy response_zero_qty \<and> typeof response_zero_qty = ''object''
   \<and> resolved_invoice_id (unwrap response_zero_qty possibleWrappers) \<noteq> None
   \<and> response_convertible (unwrap response_zero_qty possibleWrappers)
   \<and> list_all stringish (text_candidates (unwrap response_zero_qty possibleWrappers))
   \<and> (\<exists>out. validateAndNormalizeInvoiceResponse offline response_zero_qty None = Inr (Some out)
          \<and> invoice_populated out \<and> length (items out) = 2 \<and> invoice_text_is_string out)"
  using normalizer_populates_every_field [of response_zero_qty None offline]
        response_zero_qty_facts
  by auto

text \<open>
  A numeric \<^verbatim>\<open>invoice_date\<close> of the response is passed on as it is, so the invoice's
  \<^verbatim>\<open>invoice_date\<close> is not a string.
\<close>

theorem text_fields_counterexample:
  "truthy numeric_date_response \<and> typeof numeric_date_response = ''object''
   \<and> resolved_invoice_id (unwrap numeric_date_response possibleWrappers) = Some ''X1''
   \<and> validateAndNormalizeInvoiceResponse offline numeric_date_response None =
       Inr (Some numeric_date_invoice)
   \<and> invoice_date numeric_date_invoice = JNum (Fin 20240101)
   \<and> \<not> is_string (invoice_date numeric_date_invoice)
   \<and> \<not> invoice_text_is_string numeric_date_invoice"
  by (simp add: numeric_date_response_def numeric_date_invoice_def possibleWrappers_def
        resolved_invoice_id_def validateAndNormalizeInvoiceResponse_def invoiceId_candidate_def
        js_or_def trim_def is_space_def build_invoice_def and_then_def
        normalize_summary_def summary_field_def js_get_opt_def num_or_def
        normalize_bill_to_def normalize_vendor_def iso_date_def offline_def thirty_days_def
        invoice_text_is_string_def)

text \<open>
  Claim C3. The normalizer does not return for a response whose \<^verbatim>\<open>items\<close> array begins
  with null, whether an identifier resolves or a hint is there to synthesize one:
  reading \<^verbatim>\<open>item.description\<close> of the null element throws a TypeError. With the hint
  \<^verbatim>\<open>PO-9\<close> and the response \<^verbatim>\<open>{"items": [null]}\<close> no invoice is produced.
\<close>

theorem normalizer_throws_on_null_item:
  "truthy raw \<and> typeof raw = ''object'' \<and>
   js_get (unwrap raw possibleWrappers) ''items'' = JArr (JNull # rest) \<and>
   (resolved_invoice_id (unwrap raw possibleWrappers) \<noteq> None \<or> (\<exists>po. hint = Some po \<and> po \<noteq> []))
   \<longrightarrow> validateAndNormalizeInvoiceResponse p raw hint =
         Inl (Error (cannot_read JNull ''description''))"
  by (auto simp: validateAndNormalizeInvoiceResponse_def Let_def resolved_invoice_id_def
        build_invoice_def and_then_def normalize_item_def js_get_checked_def
        split: option.splits)

theorem normalizer_throws_on_null_item_witness:
  "truthy null_item_response \<and> typeof null_item_response = ''object''
   \<and> js_get (unwrap null_item_response possibleWrappers) ''items'' = JArr [JNull]
   \<and> resolved_invoice_id (unwrap null_item_response possibleWrappers) = None
   \<and> validateAndNormalizeInvoiceResponse offline null_item_response (Some ''PO-9'') =
       Inl (Error (cannot_read JNull ''description''))
   \<and> normalized_id offline null_item_response (Some ''PO-9'') = None"
proof -
  have f: "truthy null_item_response \<and> typeof null_item_response = ''object''
     \<and> js_get (unwrap null_item_response possibleWrappers) ''items'' = JArr [JNull]
     \<and> resolved_invoice_id (unwrap null_item_response possibleWrappers) = None"
    by (simp add: null_item_response_def possibleWrappers_def resolved_invoice_id_def
                  invoiceId_candidate_def js_or_def)
  then show ?thesis
    using normalizer_throws_on_null_item [of null_item_response "[]" "Some ''PO-9''" offline]
    by (simp add: normalized_id_def)
qed

subsection \<open>Regular expressions\<close>

inductive_cases m_ZeroE: "matches Zero w"
inductive_cases m_OneE: "matches One w"
inductive_cases m_ClsE: "matches (Cls f) w"
inductive_cases m_SeqE: "matches (Seq r s) w"
inductive_cases m_AltE: "matches (Alt r s) w"

lemma seq_iff: "matches (Seq r s) w \<longleftrightarrow> (\<exists>u v. w = u @ v \<and> matches r u \<and> matches s v)"
proof
  assume "matches (Seq r s) w"
  then show "\<exists>u v. w = u @ v \<and> matches r u \<and> matches s v"
    by (rule m_SeqE) blast
next
  assume "\<exists>u v. w = u @ v \<and> matches r u \<and> matches s v"
  then obtain u v where "w = u @ v" "matches r u" "matches s v" by blast
  then show "matches (Seq r s) w" using m_Seq [of r u s v] by simp
qed

lemma alt_iff: "matches (Alt r s) w \<longleftrightarrow> matches r w \<or> matches s w"
proof
  assume "matches (Alt r s) w"
  then show "matches r w \<or> matches s w" by (rule m_AltE) simp_all
next
  assume "matches r w \<or> matches s w"
  then show "matches (Alt r s) w" using m_AltL m_AltR by blast
qed

lemma cls_iff: "matches (Cls f) w \<longleftrightarrow> (\<exists>c. w = [c] \<and> f c)"
proof
  assume "matches (Cls f) w"
  then show "\<exists>c. w = [c] \<and> f c" by (rule m_ClsE) simp
next
  assume "\<exists>c. w = [c] \<and> f c"
  then show "matches (Cls f) w" using m_Cls by blast
qed

lemma zero_iff: "matches Zero w \<longleftrightarrow> False"
  by (auto elim: m_ZeroE)

lemma one_iff: "matches One w \<longleftrightarrow> w = []"
  by (auto elim: m_OneE intro: m_One)

lemma nullable_matches: "nullable r \<longleftrightarrow> matches r []"
  by (induction r) (simp_all add: zero_iff one_iff cls_iff seq_iff alt_iff m_StarNil)

lemma star_cons:
  "matches (Star r) w \<Longrightarrow> w = c # x \<Longrightarrow>
   \<exists>u v. x = u @ v \<and> matches r (c # u) \<and> matches (Star r) v"
proof (induction "Star r" w arbitrary: x rule: matches.induct)
  case m_StarNil
  then show ?case by simp
next
  case (m_StarStep u v)
  show ?case
  proof (cases u)
    case Nil
    then show ?thesis using m_StarStep by simp
  next
    case (Cons d u')
    then have "x = u' @ v" "matches r (c # u')" using m_StarStep by auto
    then show ?thesis using m_StarStep.hyps(3) by blast
  qed
qed

lemma deriv_matches: "matches (deriv c r) w \<longleftrightarrow> matches r (c # w)"
proof (induction r arbitrary: w)
  case Zero
  show ?case by (simp add: zero_iff)
next
  case One
  show ?case by (simp add: zero_iff one_iff)
next
  case (Cls f)
  show ?case by (simp add: zero_iff one_iff cls_iff)
next
  case (Seq r s)
  have split: "matches (Seq r s) (c # w) \<longleftrightarrow>
     (\<exists>u v. w = u @ v \<and> matches r (c # u) \<and> matches s v) \<or> (matches r [] \<and> matches s (c # w))"
  proof
    assume "matches (Seq r s) (c # w)"
    then obtain a b where ab: "c # w = a @ b" "matches r a" "matches s b"
      unfolding seq_iff by blast
    show "(\<exists>u v. w = u @ v \<and> matches r (c # u) \<and> matches s v) \<or> (matches r [] \<and> matches s (c # w))"
    proof (cases a)
      case Nil
      then show ?thesis using ab by simp
    next
      case (Cons d a')
      then show ?thesis using ab by auto
    qed
  next
    assume "(\<exists>u v. w = u @ v \<and> matches r (c # u) \<and> matches s v) \<or> (matches r [] \<and> matches s (c # w))"
    then show "matches (Seq r s) (c # w)"
    proof
      assume "\<exists>u v. w = u @ v \<and> matches r (c # u) \<and> matches s v"
      then obtain u v where "w = u @ v" "matches r (c # u)" "matches s v" by blast
      then show ?thesis using m_Seq [of r "c # u" s v] by simp
    next
      assume "matches r [] \<and> matches s (c # w)"
      then show ?thesis using m_Seq [of r "[]" s "c # w"] by simp
    qed
  qed
  have left: "matches (Seq (deriv c r) s) w \<longleftrightarrow> (\<exists>u v. w = u @ v \<and> matches r (c # u) \<and> matches s v)"
    by (rule seq_iff [of "deriv c r" s w, unfolded Seq.IH(1)])
  show ?case
  proof (cases "nullable r")
    case True
    then have "matches (deriv c (Seq r s)) w \<longleftrightarrow>
               matches (Seq (deriv c r) s) w \<or> matches (deriv c s) w"
      by (simp add: alt_iff)
    then show ?thesis
      using split left Seq.IH(2) [of w] True nullable_matches [of r] by simp
  next
    case False
    then show ?thesis
      using split left nullable_matches [of r] by simp
  qed
next
  case (Alt r s)
  then show ?case by (simp add: alt_iff)
next
  case (Star r)
  have "matches (Seq (deriv c r) (Star r)) w \<longleftrightarrow>
        (\<exists>u v. w = u @ v \<and> matches r (c # u) \<and> matches (Star r) v)"
    by (rule seq_iff [of "deriv c r" "Star r" w, unfolded Star.IH])
  also have "\<dots> \<longleftrightarrow> matches (Star r) (c # w)"
  proof
    assume "\<exists>u v. w = u @ v \<and> matches r (c # u) \<and> matches (Star r) v"
    then obtain u v where "w = u @ v" "matches r (c # u)" "matches (Star r) v" by blast
    then show "matches (Star r) (c # w)" using m_StarStep [of r "c # u" v] by simp
  next
    assume "matches (Star r) (c # w)"
    then show "\<exists>u v. w = u @ v \<and> matches r (c # u) \<and> matches (Star r) v"
      using star_cons by blast
  qed
  finally show ?case by simp
qed

lemma rx_test_matches: "rx_test r s \<longleftrightarrow> matches r s"
proof -
  have "nullable (foldl (\<lambda>r c. deriv c r) r s) \<longleftrightarrow> matches r s" for r
    by (induction s arbitrary: r) (simp_all add: nullable_matches deriv_matches)
  then show ?thesis by (simp add: rx_test_def)
qed

lemma star_cls: "matches (Star (Cls f)) w \<longleftrightarrow> (\<forall>c \<in> set w. f c)"
proof
  assume "matches (Star (Cls f)) w"
  then show "\<forall>c \<in> set w. f c"
    by (induction "Star (Cls f)" w rule: matches.induct) (auto simp: cls_iff)
next
  show "\<forall>c \<in> set w. f c \<Longrightarrow> matches (Star (Cls f)) w"
  proof (induction w)
    case Nil
    show ?case by (rule m_StarNil)
  next
    case (Cons c w)
    then have "matches (Cls f) [c]" "matches (Star (Cls f)) w" by (auto intro: m_Cls)
    then show ?case using m_StarStep [of "Cls f" "[c]" w] by simp
  qed
qed

lemma plus_cls: "matches (Plus_rx (Cls f)) w \<longleftrightarrow> w \<noteq> [] \<and> (\<forall>c \<in> set w. f c)"
proof
  assume "matches (Plus_rx (Cls f)) w"
  then show "w \<noteq> [] \<and> (\<forall>c \<in> set w. f c)"
    unfolding Plus_rx_def seq_iff cls_iff star_cls by auto
next
  assume a: "w \<noteq> [] \<and> (\<forall>c \<in> set w. f c)"
  then obtain c w' where w: "w = c # w'" by (cases w) auto
  with a have "matches (Cls f) [c]" "matches (Star (Cls f)) w'" by (auto intro: m_Cls simp: star_cls)
  then show "matches (Plus_rx (Cls f)) w"
    unfolding Plus_rx_def using m_Seq [of "Cls f" "[c]" "Star (Cls f)" w'] w by simp
qed

lemma email_matches:
  "matches emailRegex s \<longleftrightarrow>
     (\<exists>a b c. s = a @ ''@'' @ b @ ''.'' @ c \<and> matches (Plus_rx not_space_at) a \<and>
        matches (Plus_rx not_space_at) b \<and> matches (Plus_rx not_space_at) c)"
proof
  assume "matches emailRegex s"
  then obtain a r1 where 1: "s = a @ r1" "matches (Plus_rx not_space_at) a"
    and m1: "matches (Seq (Cls (\<lambda>c. c = CHR ''@''))
               (Seq (Plus_rx not_space_at) (Seq (Cls (\<lambda>c. c = CHR ''.'')) (Plus_rx not_space_at)))) r1"
    unfolding emailRegex_def seq_iff [of "Plus_rx not_space_at"] by blast
  from m1 obtain x r2 where 2: "r1 = x @ r2" "matches (Cls (\<lambda>c. c = CHR ''@'')) x"
    and m2: "matches (Seq (Plus_rx not_space_at) (Seq (Cls (\<lambda>c. c = CHR ''.'')) (Plus_rx not_space_at))) r2"
    unfolding seq_iff [of "Cls (\<lambda>c. c = CHR ''@'')"] by blast
  from m2 obtain b r3 where 3: "r2 = b @ r3" "matches (Plus_rx not_space_at) b"
    and m3: "matches (Seq (Cls (\<lambda>c. c = CHR ''.'')) (Plus_rx not_space_at)) r3"
    unfolding seq_iff [of "Plus_rx not_space_at"] by blast
  from m3 obtain y c where 4: "r3 = y @ c" "matches (Cls (\<lambda>c. c = CHR ''.'')) y"
    "matches (Plus_rx not_space_at) c"
    unfolding seq_iff [of "Cls (\<lambda>c. c = CHR ''.'')"] by blast
  have "x = ''@''" using 2(2) by (simp add: cls_iff)
  moreover have "y = ''.''" using 4(2) by (simp add: cls_iff)
  ultimately have "s = a @ ''@'' @ b @ ''.'' @ c" using 1(1) 2(1) 3(1) 4(1) by simp
  then show "\<exists>a b c. s = a @ ''@'' @ b @ ''.'' @ c \<and> matches (Plus_rx not_space_at) a \<and>
        matches (Plus_rx not_space_at) b \<and> matches (Plus_rx not_space_at) c"
    using 1(2) 3(2) 4(3) by blast
next
  assume "\<exists>a b c. s = a @ ''@'' @ b @ ''.'' @ c \<and> matches (Plus_rx not_space_at) a \<and>
        matches (Plus_rx not_space_at) b \<and> matches (Plus_rx not_space_at) c"
  then obtain a b c where s: "s = a @ ''@'' @ b @ ''.'' @ c" and
    m: "matches (Plus_rx not_space_at) a" "matches (Plus_rx not_space_at) b"
       "matches (Plus_rx not_space_at) c"
    by blast
  have at: "matches (Cls (\<lambda>c. c = CHR ''@'')) ''@''" and dot: "matches (Cls (\<lambda>c. c = CHR ''.'')) ''.''"
    by (simp_all add: cls_iff)
  have "matches emailRegex (a @ ''@'' @ b @ ''.'' @ c)"
    unfolding emailRegex_def
    by (intro m_Seq m at dot)
  then show "matches emailRegex s" by (simp add: s)
qed

lemma email_shape:
  "rx_test emailRegex s \<longleftrightarrow>
     (\<exists>local domain tld. s = local @ ''@'' @ domain @ ''.'' @ tld \<and>
        local \<noteq> [] \<and> domain \<noteq> [] \<and> tld \<noteq> [] \<and>
        (\<forall>c \<in> set (local @ domain @ tld). \<not> is_space c \<and> c \<noteq> CHR ''@''))"
proof -
  have p: "matches (Plus_rx not_space_at) w \<longleftrightarrow>
           w \<noteq> [] \<and> (\<forall>c \<in> set w. \<not> is_space c \<and> c \<noteq> CHR ''@'')" for w
    unfolding not_space_at_def by (rule plus_cls)
  have "(\<exists>a b c. s = a @ ''@'' @ b @ ''.'' @ c \<and> matches (Plus_rx not_space_at) a \<and>
        matches (Plus_rx not_space_at) b \<and> matches (Plus_rx not_space_at) c) \<longleftrightarrow>
     (\<exists>local domain tld. s = local @ ''@'' @ domain @ ''.'' @ tld \<and>
        local \<noteq> [] \<and> domain \<noteq> [] \<and> tld \<noteq> [] \<and>
        (\<forall>c \<in> set (local @ domain @ tld). \<not> is_space c \<and> c \<noteq> CHR ''@''))"
    unfolding p by (intro ex_cong1) auto
  then show ?thesis by (simp only: rx_test_matches email_matches)
qed

subsection \<open>Sending an invoice\<close>

lemma falsy_or_blank_text:
  "(case v of JStr s \<Rightarrow> True | w \<Rightarrow> \<not> truthy w) \<Longrightarrow>
   falsy_or_blank expr v = Inr (case v of JStr s \<Rightarrow> trim s = [] | w \<Rightarrow> \<not> truthy w)"
  by (cases v) (auto simp: falsy_or_blank_def call_trim_def and_then_def trim_def)

lemma validateInvoiceData_typed:
  assumes "id_is_text invoiceData"
  shows "validateInvoiceData invoiceData r = Inr (first_failing (invoice_checks invoiceData r))"
proof -
  have g: "js_get_checked invoiceData ''invoice_id'' = Inr (js_get invoiceData ''invoice_id'')"
    using assms by (simp add: id_is_text_def js_get_checked_def)
  have f: "falsy_or_blank ''invoiceData.invoice_id'' (js_get invoiceData ''invoice_id'') =
           Inr (invoice_id_missing invoiceData)"
    using assms falsy_or_blank_text [of "js_get invoiceData ''invoice_id''"]
    by (simp add: id_is_text_def invoice_id_missing_def)
  show ?thesis
    by (simp add: validateInvoiceData_def g f and_then_def first_failing_def invoice_checks_def
                  recipient_missing_def email_shaped_def total_not_number_def items_empty_def)
qed

lemma validateInvoiceData_recipient:
  "recipient_missing r \<or> \<not> email_shaped r \<Longrightarrow>
   validateInvoiceData invoiceData r = Inr (first_failing (invoice_checks invoiceData r))"
  by (auto simp: validateInvoiceData_def first_failing_def invoice_checks_def
                 recipient_missing_def email_shaped_def)

text \<open>
  Claim C8. \<^verbatim>\<open>validateInvoiceData\<close> returns the message of the first failing check in
  the order: recipient present, recipient of the shape local@domain.tld (three non-empty
  runs without white space or @, joined by one @ and a dot), invoice id not blank,
  summary total a number, items not empty. A missing recipient is reported
  whatever the invoice is, before anything of the invoice is read; and with a valid
  recipient, an identifier and a numeric total, an empty items array is reported as
  such.
\<close>

theorem validation_reports_first_failing_check:
  "(email_shaped r \<longleftrightarrow>
      (\<exists>local domain tld. trim r = local @ ''@'' @ domain @ ''.'' @ tld \<and>
         local \<noteq> [] \<and> domain \<noteq> [] \<and> tld \<noteq> [] \<and>
         (\<forall>c \<in> set (local @ domain @ tld). \<not> is_space c \<and> c \<noteq> CHR ''@'')))
   \<and> (recipient_missing r \<longrightarrow>
      validateInvoiceData invoiceData r = Inr (Some ''Recipient email address is required''))
   \<and> (recipient_missing r \<or> \<not> email_shaped r \<or> id_is_text invoiceData \<longrightarrow>
      validateInvoiceData invoiceData r = Inr (first_failing (invoice_checks invoiceData r)))
   \<and> (\<not> recipient_missing r \<and> email_shaped r \<and> id_is_text invoiceData \<and>
       \<not> invoice_id_missing invoiceData \<and> \<not> total_not_number invoiceData \<and>
       js_get invoiceData ''items'' = JArr []
      \<longrightarrow> validateInvoiceData invoiceData r = Inr (Some ''Invoice must contain at least one item''))"
proof (intro conjI impI)
  show "email_shaped r \<longleftrightarrow>
      (\<exists>local domain tld. trim r = local @ ''@'' @ domain @ ''.'' @ tld \<and>
         local \<noteq> [] \<and> domain \<noteq> [] \<and> tld \<noteq> [] \<and>
         (\<forall>c \<in> set (local @ domain @ tld). \<not> is_space c \<and> c \<noteq> CHR ''@''))"
    unfolding email_shaped_def by (rule email_shape)
next
  assume "recipient_missing r"
  then show "validateInvoiceData invoiceData r = Inr (Some ''Recipient email address is required'')"
    by (simp add: validateInvoiceData_def recipient_missing_def)
next
  assume "recipient_missing r \<or> \<not> email_shaped r \<or> id_is_text invoiceData"
  then show "validateInvoiceData invoiceData r = Inr (first_failing (invoice_checks invoiceData r))"
    using validateInvoiceData_typed validateInvoiceData_recipient by blast
next
  assume a: "\<not> recipient_missing r \<and> email_shaped r \<and> id_is_text invoiceData \<and>
       \<not> invoice_id_missing invoiceData \<and> \<not> total_not_number invoiceData \<and>
       js_get invoiceData ''items'' = JArr []"
  then have "validateInvoiceData invoiceData r = Inr (first_failing (invoice_checks invoiceData r))"
    using validateInvoiceData_typed by blast
  then show "validateInvoiceData invoiceData r = Inr (Some ''Invoice must contain at least one item'')"
    using a by (simp add: first_failing_def invoice_checks_def items_empty_def)
qed

lemma email_example: "email_shaped ''billing@acme.example''"
  by (simp add: email_shaped_def trim_def is_space_def rx_test_def emailRegex_def Plus_rx_def
                not_space_at_def)

theorem validation_reports_first_failing_check_witness:
  "recipient_missing []
   \<and> validateInvoiceData JNull [] = Inr (Some ''Recipient email address is required'')
   \<and> validateInvoiceData invoice_nothing [] = Inr (Some ''Recipient email address is required'')
   \<and> id_is_text invoice_nothing
   \<and> validateInvoiceData invoice_nothing ''billing@acme.example'' = Inr (Some ''Invoice ID is missing'')
   \<and> \<not> recipient_missing ''billing@acme.example'' \<and> email_shaped ''billing@acme.example''
   \<and> id_is_text invoice_no_items \<and> \<not> invoice_id_missing invoice_no_items
   \<and> \<not> total_not_number invoice_no_items \<and> js_get invoice_no_items ''items'' = JArr []
   \<and> validateInvoiceData invoice_no_items ''billing@acme.example'' =
       Inr (Some ''Invoice must contain at least one item'')"
proof -
  have r: "recipient_missing []" "\<not> recipient_missing ''billing@acme.example''"
    by (simp_all add: recipient_missing_def trim_def is_space_def)
  have n: "id_is_text invoice_nothing" "invoice_id_missing invoice_nothing"
    by (simp_all add: id_is_text_def invoice_id_missing_def invoice_nothing_def trim_def)
  have i: "id_is_text invoice_no_items" "\<not> invoice_id_missing invoice_no_items"
          "\<not> total_not_number invoice_no_items" "js_get invoice_no_items ''items'' = JArr []"
    by (simp_all add: id_is_text_def invoice_id_missing_def total_not_number_def invoice_no_items_def
                      trim_def is_space_def)
  have 1: "validateInvoiceData JNull [] = Inr (Some ''Recipient email address is required'')"
    using validation_reports_first_failing_check [of "[]" JNull, THEN conjunct2] r by simp
  have 2: "validateInvoiceData invoice_nothing [] = Inr (Some ''Recipient email address is required'')"
    using validation_reports_first_failing_check [of "[]" invoice_nothing, THEN conjunct2] r by simp
  have 3: "validateInvoiceData invoice_nothing ''billing@acme.example'' = Inr (Some ''Invoice ID is missing'')"
    using validation_reports_first_failing_check [of "''billing@acme.example''" invoice_nothing,
            THEN conjunct2]
          r n email_example
    by (simp add: first_failing_def invoice_checks_def)
  have 4: "validateInvoiceData invoice_no_items ''billing@acme.example'' =
       Inr (Some ''Invoice must contain at least one item'')"
    using validation_reports_first_failing_check [of "''billing@acme.example''" invoice_no_items,
            THEN conjunct2, THEN conjunct2, THEN conjunct2]
          r i email_example
    by simp
  show ?thesis using r n i 1 2 3 4 email_example by simp
qed

lemma trim_trim_nonempty: "trim s \<noteq> [] \<Longrightarrow> trim (trim s) \<noteq> []"
proof -
  let ?d = "dropWhile is_space (rev (dropWhile is_space s))"
  assume "trim s \<noteq> []"
  then have d: "?d \<noteq> []" by (simp add: trim_def)
  then have "\<not> is_space (hd ?d)" by (rule hd_dropWhile)
  moreover have "hd ?d \<in> set (trim s)" using d by (simp add: trim_def)
  ultimately show ?thesis by (auto simp: trim_eq_Nil)
qed

lemma trim_suffix_nonempty: "trim (s @ ''@example.com'') \<noteq> []"
  by (simp add: trim_eq_Nil is_space_def)

lemma falsy_or_blank_False:
  "falsy_or_blank expr v = Inr False \<Longrightarrow> \<exists>s. v = JStr s \<and> trim s \<noteq> []"
  by (cases v) (auto simp: falsy_or_blank_def call_trim_def and_then_def not_a_function_def
                     split: if_splits)

lemma trimmed_email_not_blank:
  assumes "falsy_or_blank expr v = Inr False" "call_trim expr' v = Inr r"
  shows "trim r \<noteq> []"
proof -
  from falsy_or_blank_False [OF assms(1)] obtain s where s: "v = JStr s" "trim s \<noteq> []"
    by blast
  with assms(2) have "r = trim s" by (simp add: call_trim_def)
  with s show ?thesis by (simp add: trim_trim_nonempty)
qed

lemma default_recipient_not_blank:
  assumes "getDefaultRecipient invoiceData = Inr r"
  shows "trim r \<noteq> []"
proof -
  from assms obtain billTo billEmail bill_blank where
    b: "falsy_or_blank ''invoiceData.bill_to.email'' billEmail = Inr bill_blank" and
    rest: "(if \<not> bill_blank then call_trim ''invoiceData.bill_to.email'' billEmail
       else
         and_then (js_get_checked (js_get invoiceData ''vendor'') ''email'') (\<lambda>vendorEmail.
         and_then (falsy_or_blank ''invoiceData.vendor.email'' vendorEmail) (\<lambda>vendor_blank.
           if \<not> vendor_blank then call_trim ''invoiceData.vendor.email'' vendorEmail
           else
             (let companyName =
                    js_or (js_get billTo ''company'')
                      (js_or (js_get (js_get invoiceData ''vendor'') ''company'') (JStr ''company''))
              in and_then (call_toLowerCase ''companyName'' companyName) (\<lambda>lowered.
                   Inr (filter is_lower_alnum lowered @ ''@example.com'')))))) = Inr r"
    by (auto simp: getDefaultRecipient_def and_then_def split: sum.splits)
  show ?thesis
  proof (cases bill_blank)
    case False
    then show ?thesis
      using b rest trimmed_email_not_blank [of _ billEmail _ r] by simp
  next
    case True
    with rest obtain vendorEmail vendor_blank where
      v: "falsy_or_blank ''invoiceData.vendor.email'' vendorEmail = Inr vendor_blank" and
      rest2: "(if \<not> vendor_blank then call_trim ''invoiceData.vendor.email'' vendorEmail
           else
             (let companyName =
                    js_or (js_get billTo ''company'')
                      (js_or (js_get (js_get invoiceData ''vendor'') ''company'') (JStr ''company''))
              in and_then (call_toLowerCase ''companyName'' companyName) (\<lambda>lowered.
                   Inr (filter is_lower_alnum lowered @ ''@example.com'')))) = Inr r"
      by (auto simp: and_then_def split: sum.splits)
    show ?thesis
    proof (cases vendor_blank)
      case False
      then show ?thesis
        using v rest2 trimmed_email_not_blank [of _ vendorEmail _ r] by simp
    next
      case True
      then show ?thesis
        using rest2 by (auto simp: and_then_def Let_def trim_suffix_nonempty split: sum.splits)
    qed
  qed
qed

lemma falsy_or_blank_field:
  "text_or_absent v \<Longrightarrow> falsy_or_blank expr v = Inr (trim (field_text v) = [])"
  by (cases v) (auto simp: text_or_absent_def falsy_or_blank_def call_trim_def and_then_def trim_def)

lemma call_trim_field:
  "is_string v \<Longrightarrow> call_trim expr v = Inr (trim (field_text v))"
  by (cases v) (auto simp: call_trim_def)

lemma nonblank_is_string: "text_or_absent v \<Longrightarrow> trim (field_text v) \<noteq> [] \<Longrightarrow> is_string v"
  by (cases v) (auto simp: text_or_absent_def trim_def)

lemma company_name_typed:
  assumes "text_or_absent b" "text_or_absent v"
  shows "call_toLowerCase ''companyName'' (js_or b (js_or v (JStr ''company''))) =
           Inr (map lower_char (if field_text b \<noteq> [] then field_text b
                                else if field_text v \<noteq> [] then field_text v else ''company''))"
  using assms
  by (cases b; cases v) (auto simp: text_or_absent_def js_or_def call_toLowerCase_def)

lemma default_recipient_typed:
  assumes "contacts_typed invoiceData"
  shows "getDefaultRecipient invoiceData = Inr (default_recipient_spec invoiceData)"
proof -
  let ?bt = "js_get invoiceData ''bill_to''" and ?vd = "js_get invoiceData ''vendor''"
  from assms have
    n: "\<not> nullish invoiceData" "\<not> nullish ?bt" "\<not> nullish ?vd" and
    be: "text_or_absent (js_get ?bt ''email'')" and ve: "text_or_absent (js_get ?vd ''email'')" and
    bc: "text_or_absent (js_get ?bt ''company'')" and vc: "text_or_absent (js_get ?vd ''company'')"
    by (simp_all add: contacts_typed_def)
  show ?thesis
    using n nonblank_is_string [OF be] nonblank_is_string [OF ve]
    by (simp add: getDefaultRecipient_def default_recipient_spec_def js_get_checked_def and_then_def
                  falsy_or_blank_field [OF be] falsy_or_blank_field [OF ve] call_trim_field
                  company_name_typed [OF bc vc] Let_def)
qed

text \<open>
  Claim C10, as amended. \<^verbatim>\<open>sendInvoice\<close> with the empty string as recipient behaves as
  with the recipient omitted: the default recipient is resolved. On an invoice with
  textual contacts that is the trimmed bill-to email if it is not blank, else the
  trimmed vendor email if it is not blank, else the lower-cased company name without
  its non-alphanumeric characters at \<^verbatim>\<open>example.com\<close>. A resolved default recipient is
  never blank, so its validation never answers that the recipient is required; a given
  recipient that is not empty but blank is kept, and the call answers exactly that.
\<close>

theorem empty_recipient_is_omitted_recipient:
  "sendInvoice p invoiceData po (Some []) = sendInvoice p invoiceData po None
   \<and> (contacts_typed invoiceData \<longrightarrow>
        getDefaultRecipient invoiceData = Inr (default_recipient_spec invoiceData))
   \<and> (getDefaultRecipient invoiceData = Inr r \<longrightarrow>
        \<not> recipient_missing r \<and>
        validateInvoiceData invoiceData r \<noteq> Inr (Some ''Recipient email address is required''))
   \<and> (\<not> base_url_missing p \<and> given \<noteq> [] \<and> trim given = [] \<longrightarrow>
        sendInvoice p invoiceData po (Some given) =
          Inr (send_failure ''Recipient email address is required''))"
proof (intro conjI impI)
  show "sendInvoice p invoiceData po (Some []) = sendInvoice p invoiceData po None"
    by (simp add: sendInvoice_def)
next
  assume "contacts_typed invoiceData"
  then show "getDefaultRecipient invoiceData = Inr (default_recipient_spec invoiceData)"
    by (rule default_recipient_typed)
next
  assume "getDefaultRecipient invoiceData = Inr r"
  then have t: "trim r \<noteq> []" by (rule default_recipient_not_blank)
  then have "r \<noteq> []" by (auto simp: trim_def)
  with t show "\<not> recipient_missing r" by (simp add: recipient_missing_def)
  from t \<open>r \<noteq> []\<close>
  show "validateInvoiceData invoiceData r \<noteq> Inr (Some ''Recipient email address is required'')"
    by (auto simp: validateInvoiceData_def and_then_def split: sum.splits if_splits)
next
  assume "\<not> base_url_missing p \<and> given \<noteq> [] \<and> trim given = []"
  then show "sendInvoice p invoiceData po (Some given) =
          Inr (send_failure ''Recipient email address is required'')"
    by (simp add: sendInvoice_def and_then_def validateInvoiceData_def)
qed

lemma invoice_acme_typed: "contacts_typed invoice_acme"
  by (simp add: contacts_typed_def invoice_acme_def text_or_absent_def)

lemma invoice_acme_default: "default_recipient_spec invoice_acme = ''acmecorp@example.com''"
  by code_simp

theorem empty_recipient_is_omitted_recipient_witness:
  "contacts_typed invoice_acme
   \<and> getDefaultRecipient invoice_acme = Inr ''acmecorp@example.com''
   \<and> \<not> recipient_missing ''acmecorp@example.com''
   \<and> validateInvoiceData invoice_acme ''acmecorp@example.com'' \<noteq>
       Inr (Some ''Recipient email address is required'')
   \<and> sendInvoice offline invoice_acme ''PO-9'' (Some []) = sendInvoice offline invoice_acme ''PO-9'' None
   \<and> \<not> base_url_missing offline \<and> trim ''   '' = []
   \<and> sendInvoice offline invoice_acme ''PO-9'' (Some ''   '') =
       Inr (send_failure ''Recipient email address is required'')"
proof -
  have b: "\<not> base_url_missing offline" "trim ''   '' = []"
    by (simp_all add: base_url_missing_def offline_def trim_def is_space_def)
  show ?thesis
    using empty_recipient_is_omitted_recipient
            [of offline invoice_acme "''PO-9''" "''acmecorp@example.com''" "''   ''"]
          invoice_acme_typed invoice_acme_default b
    by simp
qed

text \<open>
  A recipient of three spaces is truthy, so it is kept and the validation answers that
  the recipient is required; and a bill-to email of two spaces is skipped for the
  vendor's.
\<close>

theorem blank_recipient_counterexample:
  "sendInvoice offline invoice_acme ''PO-9'' (Some ''   '') =
     Inr (send_failure ''Recipient email address is required'')
   \<and> getDefaultRecipient invoice_blank_bill_email = Inr ''ap@globex.example''"
  by (simp add: sendInvoice_def offline_def base_url_missing_def and_then_def
                validateInvoiceData_def trim_def is_space_def
                getDefaultRecipient_def invoice_blank_bill_email_def js_get_checked_def
                falsy_or_blank_def call_trim_def)

subsection \<open>Invoice generation\<close>

lemma generate_catch:
  assumes "\<not> (po = [] \<or> trim po = [])" "\<not> base_url_missing p"
      and "getExistingInvoiceFromDatabase p (trim po) = None"
      and "generate_via_api p (trim po) = Inl err"
  shows "generateAIInvoice p po = handle_generation_error p (trim po) err"
  using assms by (simp add: generateAIInvoice_def Let_def)

text \<open>
  Claim C4. When the PO number is not blank, the base URL is configured, no stored
  invoice is found and the generation step throws: for an Error whose message includes
  \<^verbatim>\<open>fetch\<close>, \<^verbatim>\<open>generateAIInvoice\<close> returns success with source \<^verbatim>\<open>generated\<close> and the
  placeholder invoice (synthesized identifier, today and today plus thirty days, Net 30,
  Standard, placeholder contacts, no items, a zero summary, status Pending, and notes
  naming the PO and the unavailable API), and the identifier has the fallback pattern
  whenever the draw of \<^verbatim>\<open>Math.random()\<close> is a binary64 value in \<open>[0, 1)\<close>, the product
  with 1000 being rounded to binary64 before it is floored; for any other Error it
  returns failure with the Error's message, and for a thrown value that is not an
  Error, which has no message, failure with the generic text.
\<close>

theorem fetch_failure_yields_fallback_invoice:
  "\<not> (po = [] \<or> trim po = []) \<and> \<not> base_url_missing p \<and>
   getExistingInvoiceFromDatabase p (trim po) = None \<and>
   generate_via_api p (trim po) = Inl err
   \<longrightarrow>
   (case err of
      Error msg \<Rightarrow>
        if str_includes msg ''fetch'' then
          generateAIInvoice p po =
            \<lparr> InvoiceGenerationResult.success = True,
              invoice = Some
                \<lparr> invoice_id = generateFallbackInvoiceId p (trim po),
                  invoice_date = JStr (iso_date p (date_now p)),
                  due_date = JStr (iso_date p (date_now p + 30 * 24 * 60 * 60 * 1000)),
                  payment_terms = JStr ''Net 30'',
                  shipping_method = JStr ''Standard'',
                  bill_to = \<lparr> company = JStr ''Unknown Company'', contact = JStr ''Unknown Contact'',
                              address = JStr ''Unknown Address'', phone = JStr [], email = JStr [] \<rparr>,
                  vendor = \<lparr> company = JStr ''Unknown Vendor'', contact = JStr ''Unknown Contact'',
                             address = JStr ''Unknown Address'', phone = JStr [], email = JStr [] \<rparr>,
                  items = [],
                  summary = \<lparr> subtotal = Fin 0, discount = Fin 0, freight = Fin 0, tax = Fin 0,
                              InvoiceSummary.total = Fin 0 \<rparr>,
                  notes = JStr (''Fallback invoice generated for PO '' @ trim po @
                                '' due to API unavailability. Please update with correct information.''),
                  payment_status = JStr ''Pending'' \<rparr>,
              InvoiceGenerationResult.error = None, rawResponse = None, source = Some Generated \<rparr>
          \<and> (is_binary64 (math_random p) \<and> 0 \<le> math_random p \<and> math_random p < 1 \<longrightarrow>
               fallback_id_pattern (trim po) (generateFallbackInvoiceId p (trim po)))
        else
          generateAIInvoice p po =
            \<lparr> InvoiceGenerationResult.success = False, invoice = None,
              InvoiceGenerationResult.error = Some msg, rawResponse = None, source = None \<rparr>
    | Thrown v \<Rightarrow>
        generateAIInvoice p po =
          \<lparr> InvoiceGenerationResult.success = False, invoice = None,
            InvoiceGenerationResult.error =
              Some ''An unexpected error occurred during invoice generation'',
            rawResponse = None, source = None \<rparr>)"
proof
  assume a: "\<not> (po = [] \<or> trim po = []) \<and> \<not> base_url_missing p \<and>
   getExistingInvoiceFromDatabase p (trim po) = None \<and>
   generate_via_api p (trim po) = Inl err"
  then have g: "generateAIInvoice p po = handle_generation_error p (trim po) err"
    using generate_catch by blast
  show "case err of
      Error msg \<Rightarrow>
        if str_includes msg ''fetch'' then
          generateAIInvoice p po =
            \<lparr> InvoiceGenerationResult.success = True,
              invoice = Some
                \<lparr> invoice_id = generateFallbackInvoiceId p (trim po),
                  invoice_date = JStr (iso_date p (date_now p)),
                  due_date = JStr (iso_date p (date_now p + 30 * 24 * 60 * 60 * 1000)),
                  payment_terms = JStr ''Net 30'',
                  shipping_method = JStr ''Standard'',
                  bill_to = \<lparr> company = JStr ''Unknown Company'', contact = JStr ''Unknown Contact'',
                              address = JStr ''Unknown Address'', phone = JStr [], email = JStr [] \<rparr>,
                  vendor = \<lparr> company = JStr ''Unknown Vendor'', contact = JStr ''Unknown Contact'',
                             address = JStr ''Unknown Address'', phone = JStr [], email = JStr [] \<rparr>,
                  items = [],
                  summary = \<lparr> subtotal = Fin 0, discount = Fin 0, freight = Fin 0, tax = Fin 0,
                              InvoiceSummary.total = Fin 0 \<rparr>,
                  notes = JStr (''Fallback invoice generated for PO '' @ trim po @
                                '' due to API unavailability. Please update with correct information.''),
                  payment_status = JStr ''Pending'' \<rparr>,
              InvoiceGenerationResult.error = None, rawResponse = None, source = Some Generated \<rparr>
          \<and> (is_binary64 (math_random p) \<and> 0 \<le> math_random p \<and> math_random p < 1 \<longrightarrow>
               fallback_id_pattern (trim po) (generateFallbackInvoiceId p (trim po)))
        else
          generateAIInvoice p po =
            \<lparr> InvoiceGenerationResult.success = False, invoice = None,
              InvoiceGenerationResult.error = Some msg, rawResponse = None, source = None \<rparr>
    | Thrown v \<Rightarrow>
        generateAIInvoice p po =
          \<lparr> InvoiceGenerationResult.success = False, invoice = None,
            InvoiceGenerationResult.error =
              Some ''An unexpected error occurred during invoice generation'',
            rawResponse = None, source = None \<rparr>"
  proof (cases err)
    case (Error msg)
    then show ?thesis
      using g fallback_id_shape(1) [of p "trim po"]
      by (simp add: handle_generation_error_def generation_success_def generation_failure_def
                    fallbackInvoice_def thirty_days_def)
  next
    case (Thrown v)
    then show ?thesis
      using g by (simp add: handle_generation_error_def generation_failure_def)
  qed
qed

lemma trim_po9: "trim '' PO-9 '' = ''PO-9''"
  by (simp add: trim_def is_space_def)

lemma offline_generation:
  "\<not> base_url_missing offline \<and>
   getExistingInvoiceFromDatabase offline ''PO-9'' = None \<and>
   generate_via_api offline ''PO-9'' = Inl (Error ''Failed to fetch'')"
  by (simp add: base_url_missing_def offline_def getExistingInvoiceFromDatabase_def
                generate_via_api_def and_then_def)

lemma null_item_server_generation:
  \<open>\<not> base_url_missing null_item_server \<and>
   getExistingInvoiceFromDatabase null_item_server ''PO-9'' = None \<and>
   generate_via_api null_item_server ''PO-9'' = Inl (Error (cannot_read JNull ''description''))\<close>
proof -
  have n: "validateAndNormalizeInvoiceResponse null_item_server null_item_response (Some ''PO-9'') =
             Inl (Error (cannot_read JNull ''description''))"
    by (simp add: null_item_response_def possibleWrappers_def
        validateAndNormalizeInvoiceResponse_def invoiceId_candidate_def js_or_def
        build_invoice_def and_then_def normalize_item_def js_get_checked_def)
  show ?thesis
    by (simp add: base_url_missing_def null_item_server_def offline_def
                  getExistingInvoiceFromDatabase_def generate_via_api_def and_then_def ok_def
                  n [unfolded null_item_server_def offline_def, simplified])
qed

theorem fetch_failure_yields_fallback_invoice_witness:
  \<open>\<not> ('' PO-9 '' = [] \<or> trim '' PO-9 '' = []) \<and> \<not> base_url_missing offline
   \<and> getExistingInvoiceFromDatabase offline (trim '' PO-9 '') = None
   \<and> generate_via_api offline (trim '' PO-9 '') = Inl (Error ''Failed to fetch'')
   \<and> str_includes ''Failed to fetch'' ''fetch''
   \<and> InvoiceGenerationResult.success (generateAIInvoice offline '' PO-9 '')
   \<and> source (generateAIInvoice offline '' PO-9 '') = Some Generated
   \<and> map_option invoice_id (invoice (generateAIInvoice offline '' PO-9 '')) =
         Some ''INV-PO-9-1700000000123-007''
   \<and> is_binary64 (math_random offline) \<and> 0 \<le> math_random offline \<and> math_random offline < 1
   \<and> fallback_id_pattern (trim '' PO-9 '') (generateFallbackInvoiceId offline (trim '' PO-9 ''))
   \<and> map_option notes (invoice (generateAIInvoice offline '' PO-9 '')) =
         Some (JStr ''Fallback invoice generated for PO PO-9 due to API unavailability. Please update with correct information.'')
   \<and> \<not> base_url_missing null_item_server
   \<and> getExistingInvoiceFromDatabase null_item_server (trim '' PO-9 '') = None
   \<and> generate_via_api null_item_server (trim '' PO-9 '') = Inl (Error (cannot_read JNull ''description''))
   \<and> \<not> str_includes (cannot_read JNull ''description'') ''fetch''
   \<and> generateAIInvoice null_item_server '' PO-9 '' =
         \<lparr> InvoiceGenerationResult.success = False, invoice = None,
           InvoiceGenerationResult.error = Some (cannot_read JNull ''description''),
           rawResponse = None, source = None \<rparr>\<close>
proof -
  have i: "str_includes ''Failed to fetch'' ''fetch''"
          "\<not> str_includes (cannot_read JNull ''description'') ''fetch''"
    by (simp_all add: cannot_read_def)
  have "round_binary64 (8070450532247929 / 1152921504606846976) =
          Fin (8070450532247929 / 1152921504606846976)"
    by code_simp
  then have r: "is_binary64 (math_random offline) \<and> 0 \<le> math_random offline \<and>
                math_random offline < 1"
    by (simp add: offline_def is_binary64_def)
  show ?thesis
    using fetch_failure_yields_fallback_invoice [of "'' PO-9 ''" offline "Error ''Failed to fetch''"]
          fetch_failure_yields_fallback_invoice
            [of "'' PO-9 ''" null_item_server "Error (cannot_read JNull ''description'')"]
          offline_generation null_item_server_generation i r
    by (simp add: trim_po9 offline_fallback_id)
qed

end
